theory Spec2Isabelle
  imports Main "HOL-Library.Char_ord" "HOL-Library.List_Lexorder"
begin

section \<open>Data model\<close>

text \<open>
  The records of \<^verbatim>\<open>shared/interfaces\<close>. Field names carry a prefix where the
  TypeScript name (\<^verbatim>\<open>id\<close>, \<^verbatim>\<open>type\<close>, \<^verbatim>\<open>created\<close>, ...) is shared by several
  interfaces or is a constant of HOL. Optional fields are options.
\<close>

text \<open>
  Modelled from the spec: \<^verbatim>\<open>iauth-user.ts\<close> is not among the sources. The fields
  are the ones \<^verbatim>\<open>searchUsers\<close> and \<^verbatim>\<open>handleMessageCreate\<close> copy from a user
  record.
\<close>

record IAuthUser =
  user_id :: string
  email :: string
  username :: string
  avatar :: "string option"

datatype RelationType = friend | blocked | pending_sent | pending_received

datatype ComputedRelationType = Rel RelationType | no_relation

record IRelation =
  rel_id :: string
  from_user :: string
  to_user :: string
  rel_type :: RelationType
  rel_created :: string
  rel_updated :: string
  rel_expand :: "(IAuthUser option \<times> IAuthUser option) option"

record IRelationStatus =
  status_type :: ComputedRelationType
  isInitiatedByMe :: bool
  relation :: "IRelation option"

record IConversation =
  conv_id :: string
  participants :: "string list"
  conv_created :: string
  conv_updated :: string
  conv_expand :: "IAuthUser list option"

datatype FileUploadType = image | video | audio | document

record IMessage =
  msg_id :: string
  msg_text :: "string option"
  msg_user :: string
  msg_conversation :: "string option"
  msg_file :: "string option"
  fileType :: "FileUploadType option"
  fileName :: "string option"
  fileSize :: "nat option"
  thumbnail :: "string option"
  collectionId :: "string option"
  collectionName :: "string option"
  msg_created :: string
  msg_updated :: string
  msg_expand :: "IAuthUser option"

section \<open>Errors\<close>

text \<open>
  A thrown JavaScript value: the \<^verbatim>\<open>message\<close> of an \<^verbatim>\<open>Error\<close>, and the
  \<^verbatim>\<open>data.message\<close> a backend response error may carry.
  \<^verbatim>\<open>new Error(m)\<close> is \<open>Error m None\<close>.
\<close>

datatype js_error = Error (message: string) (data_message: "string option")

text \<open>\<^verbatim>\<open>RELATION_ERRORS\<close> of \<^verbatim>\<open>app.constants.ts\<close> (the entries the services use).\<close>

definition not_authenticated :: string where
  "not_authenticated = ''User not authenticated''"

definition cannot_relate_self :: string where
  "cannot_relate_self = ''Cannot perform action on yourself''"

definition already_blocked :: string where
  "already_blocked = ''User is already blocked''"

text \<open>
  \<^verbatim>\<open>extractErrorMessage\<close> and \<^verbatim>\<open>handleError\<close> of \<^verbatim>\<open>error.utils.ts\<close>. An empty
  string is falsy; the thrown values of this program are always objects, so the
  \<^verbatim>\<open>!error\<close> and \<^verbatim>\<open>typeof error === 'string'\<close> branches are not taken. Logging
  to the console is left out.
\<close>

definition extractErrorMessage :: "js_error \<Rightarrow> string \<Rightarrow> string" where
  "extractErrorMessage error defaultMessage =
     (if data_message error \<noteq> None \<and> the (data_message error) \<noteq> [] then the (data_message error)
      else if message error \<noteq> [] then message error
      else defaultMessage)"

definition handleError :: "string \<Rightarrow> js_error \<Rightarrow> string \<Rightarrow> string" where
  "handleError ctxt error defaultMessage = extractErrorMessage error defaultMessage"

section \<open>The backend collaborator\<close>

text \<open>
  Modelled from the spec: the PocketBase client behind \<^verbatim>\<open>this.pb\<close> is a library
  outside the repository. Section 6 of the specification gives its contract: per
  collection, list/query with a filter, a sort key and pagination, get-one, create,
  update and delete, each of which may fail in transport.

  The backend state holds the four collections. Every request increments \<open>calls\<close>;
  the request numbered \<open>n\<close> fails with \<open>e\<close> when \<open>faults n = Some e\<close>, a
  record it creates gets the identifier \<open>new_ids n\<close>, and \<open>clock n\<close> is the
  backend's time when it is served. These three functions are arbitrary, so a
  theorem about every backend covers every pattern of failures, identifiers and
  timestamps.
\<close>

record backend =
  users_col :: "IAuthUser list"
  relations_col :: "IRelation list"
  conversations_col :: "IConversation list"
  messages_col :: "IMessage list"
  calls :: nat
  faults :: "nat \<Rightarrow> js_error option"
  new_ids :: "nat \<Rightarrow> string"
  clock :: "nat \<Rightarrow> string"

type_synonym 'a reply = "(js_error + 'a) \<times> backend"

text \<open>
  Modelled from the spec: the errors of a request for an absent identifier and of a
  rejected create, and the envelope of every request (count it, fail it when the
  fault function says so, otherwise serve it).
\<close>

definition not_found :: js_error where
  "not_found = Error ''The requested resource was not found.'' None"

definition create_failed :: js_error where
  "create_failed = Error ''Failed to create record.'' None"

definition request :: "backend \<Rightarrow> (nat \<Rightarrow> backend \<Rightarrow> 'a reply) \<Rightarrow> 'a reply" where
  "request pb body =
     (let n = calls pb; pb1 = pb\<lparr>calls := Suc n\<rparr>
      in case faults pb n of Some e \<Rightarrow> (Inl e, pb1) | None \<Rightarrow> body n pb1)"

text \<open>
  Modelled from the spec: pagination, sorting and the expansion of reference fields
  of section 6. \<open>page_of\<close> is one page of the matching records, in the order of
  the sort.
\<close>

definition page_of :: "nat \<Rightarrow> nat \<Rightarrow> 'a list \<Rightarrow> 'a list" where
  "page_of page perPage xs = take perPage (drop ((page - 1) * perPage) xs)"

text \<open>Descending by a timestamp field (\<^verbatim>\<open>sort: '-created'\<close>), ties in stored order.\<close>

definition sort_desc :: "('a \<Rightarrow> string) \<Rightarrow> 'a list \<Rightarrow> 'a list" where
  "sort_desc key xs = rev (sort_key key (rev xs))"

definition find_user :: "backend \<Rightarrow> string \<Rightarrow> IAuthUser option" where
  "find_user pb uid = find (\<lambda>u. user_id u = uid) (users_col pb)"

definition expand_relation :: "bool \<Rightarrow> backend \<Rightarrow> IRelation \<Rightarrow> IRelation" where
  "expand_relation ex pb r =
     (if ex then r\<lparr>rel_expand := Some (find_user pb (from_user r), find_user pb (to_user r))\<rparr>
      else r)"

definition expand_conversation :: "backend \<Rightarrow> IConversation \<Rightarrow> IConversation" where
  "expand_conversation pb c =
     c\<lparr>conv_expand := Some (List.map_filter (find_user pb) (participants c))\<rparr>"

text \<open>
  Modelled from the spec: list/query, get-one, create, update and delete on the
  \<^verbatim>\<open>relations\<close> collection. A create appends the record under a fresh
  identifier and fails when the identifier is taken; get-one, update and delete
  fail for an identifier that is not stored.
\<close>

definition relations_getList ::
  "nat \<Rightarrow> nat \<Rightarrow> (IRelation \<Rightarrow> bool) \<Rightarrow> (IRelation list \<Rightarrow> IRelation list) \<Rightarrow> bool
     \<Rightarrow> backend \<Rightarrow> IRelation list reply" where
  "relations_getList page perPage flt srt ex pb =
     request pb (\<lambda>n pb1.
       (Inr (map (expand_relation ex pb1) (page_of page perPage (srt (filter flt (relations_col pb1))))),
        pb1))"


definition relations_create ::
  "string \<Rightarrow> string \<Rightarrow> RelationType \<Rightarrow> bool \<Rightarrow> backend \<Rightarrow> IRelation reply" where
  "relations_create fromId toId ty ex pb =
     request pb (\<lambda>n pb1.
       let r = \<lparr>rel_id = new_ids pb n, from_user = fromId, to_user = toId, rel_type = ty,
                rel_created = clock pb n, rel_updated = clock pb n, rel_expand = None\<rparr>
       in if list_ex (\<lambda>x. rel_id x = rel_id r) (relations_col pb1) then (Inl create_failed, pb1)
          else (Inr (expand_relation ex pb1 r), pb1\<lparr>relations_col := relations_col pb1 @ [r]\<rparr>))"

definition relations_update ::
  "string \<Rightarrow> RelationType \<Rightarrow> bool \<Rightarrow> backend \<Rightarrow> IRelation reply" where
  "relations_update rid ty ex pb =
     request pb (\<lambda>n pb1.
       case find (\<lambda>r. rel_id r = rid) (relations_col pb1) of
         None \<Rightarrow> (Inl not_found, pb1)
       | Some r \<Rightarrow>
           (Inr (expand_relation ex pb1 (r\<lparr>rel_type := ty, rel_updated := clock pb n\<rparr>)),
            pb1\<lparr>relations_col :=
                  map (\<lambda>x. if rel_id x = rid then x\<lparr>rel_type := ty, rel_updated := clock pb n\<rparr> else x)
                    (relations_col pb1)\<rparr>))"

definition relations_delete :: "string \<Rightarrow> backend \<Rightarrow> unit reply" where
  "relations_delete rid pb =
     request pb (\<lambda>n pb1.
       if list_ex (\<lambda>r. rel_id r = rid) (relations_col pb1)
       then (Inr (), pb1\<lparr>relations_col := filter (\<lambda>r. rel_id r \<noteq> rid) (relations_col pb1)\<rparr>)
       else (Inl not_found, pb1))"

text \<open>
  Modelled from the spec: the same operations on the \<^verbatim>\<open>conversations\<close>
  collection, create on \<^verbatim>\<open>messages\<close> and get-one on \<^verbatim>\<open>users\<close>. The filter
  \<^verbatim>\<open>participants ~ id\<close> is "contains element".
\<close>

definition conversations_getList ::
  "nat \<Rightarrow> nat \<Rightarrow> (IConversation \<Rightarrow> bool) \<Rightarrow> (IConversation list \<Rightarrow> IConversation list)
     \<Rightarrow> backend \<Rightarrow> IConversation list reply" where
  "conversations_getList page perPage flt srt pb =
     request pb (\<lambda>n pb1.
       (Inr (map (expand_conversation pb1)
               (page_of page perPage (srt (filter flt (conversations_col pb1))))),
        pb1))"

definition conversations_getOne :: "string \<Rightarrow> backend \<Rightarrow> IConversation reply" where
  "conversations_getOne cid pb =
     request pb (\<lambda>n pb1.
       case find (\<lambda>c. conv_id c = cid) (conversations_col pb1) of
         None \<Rightarrow> (Inl not_found, pb1)
       | Some c \<Rightarrow> (Inr (expand_conversation pb1 c), pb1))"

definition conversations_create :: "string list \<Rightarrow> backend \<Rightarrow> IConversation reply" where
  "conversations_create ps pb =
     request pb (\<lambda>n pb1.
       let c = \<lparr>conv_id = new_ids pb n, participants = ps, conv_created = clock pb n,
                conv_updated = clock pb n, conv_expand = None\<rparr>
       in if list_ex (\<lambda>x. conv_id x = conv_id c) (conversations_col pb1) then (Inl create_failed, pb1)
          else (Inr (expand_conversation pb1 c),
                pb1\<lparr>conversations_col := conversations_col pb1 @ [c]\<rparr>))"

definition conversations_update :: "string \<Rightarrow> string \<Rightarrow> backend \<Rightarrow> IConversation reply" where
  "conversations_update cid upd pb =
     request pb (\<lambda>n pb1.
       case find (\<lambda>c. conv_id c = cid) (conversations_col pb1) of
         None \<Rightarrow> (Inl not_found, pb1)
       | Some c \<Rightarrow>
           (Inr (c\<lparr>conv_updated := upd\<rparr>),
            pb1\<lparr>conversations_col :=
                  map (\<lambda>x. if conv_id x = cid then x\<lparr>conv_updated := upd\<rparr> else x)
                    (conversations_col pb1)\<rparr>))"

definition messages_create :: "string \<Rightarrow> string \<Rightarrow> string \<Rightarrow> backend \<Rightarrow> IMessage reply" where
  "messages_create txt uid cid pb =
     request pb (\<lambda>n pb1.
       let m = \<lparr>msg_id = new_ids pb n, msg_text = Some txt, msg_user = uid,
                msg_conversation = Some cid, msg_file = None, fileType = None, fileName = None,
                fileSize = None, thumbnail = None, collectionId = Some ''messages'',
                collectionName = Some ''messages'', msg_created = clock pb n,
                msg_updated = clock pb n, msg_expand = None\<rparr>
       in if list_ex (\<lambda>x. msg_id x = msg_id m) (messages_col pb1) then (Inl create_failed, pb1)
          else (Inr m, pb1\<lparr>messages_col := messages_col pb1 @ [m]\<rparr>))"


section \<open>The client state\<close>

text \<open>
  The signals of the three services and the authenticated user of
  \<^verbatim>\<open>AuthService\<close>. An operation takes the client state and the backend and returns
  its result (\<open>Inl\<close> for a thrown error) with both states as it leaves them. Each
  operation runs to completion: no other event is handled between its awaits.
\<close>

record app =
  user :: "IAuthUser option"
  relationsSignal :: "IRelation list"
  relationErrorSignal :: "string option"
  relationLoadingSignal :: bool
  processingIds :: "string set"
  conversationsSignal :: "IConversation list"
  conversationErrorSignal :: "string option"
  conversationLoadingSignal :: bool
  messagesSignal :: "IMessage list"
  chatErrorSignal :: "string option"
  chatLoadingSignal :: bool

type_synonym 'a outcome = "(js_error + 'a) \<times> app \<times> backend"

section \<open>RelationService\<close>

text \<open>\<^verbatim>\<open>fetchRelations\<close>: replace the collection by the first 1000 relations that touch the user.\<close>

definition fetchRelations :: "app \<Rightarrow> backend \<Rightarrow> app \<times> backend" where
  "fetchRelations s pb =
     (case user s of
        None \<Rightarrow> (s, pb)
      | Some currentUser \<Rightarrow>
          (let s1 = s\<lparr>relationLoadingSignal := True, relationErrorSignal := None\<rparr>
           in case relations_getList 1 1000
                     (\<lambda>r. from_user r = user_id currentUser \<or> to_user r = user_id currentUser)
                     (sort_desc rel_created) True pb of
                (Inr items, pb') \<Rightarrow>
                  (s1\<lparr>relationsSignal := items, relationLoadingSignal := False\<rparr>, pb')
              | (Inl error, pb') \<Rightarrow>
                  (s1\<lparr>relationErrorSignal := Some (handleError ''RelationService.fetchRelations''
                                                    error ''Failed to fetch relations''),
                      relationLoadingSignal := False\<rparr>, pb')))"

definition getRelationStatus :: "app \<Rightarrow> string \<Rightarrow> IRelationStatus" where
  "getRelationStatus s userId =
     (case user s of
        None \<Rightarrow> \<lparr>status_type = no_relation, isInitiatedByMe = False, relation = None\<rparr>
      | Some currentUser \<Rightarrow>
          (case find (\<lambda>r. from_user r = user_id currentUser \<and> to_user r = userId)
                  (relationsSignal s) of
             Some outgoing \<Rightarrow>
               \<lparr>status_type = Rel (rel_type outgoing), isInitiatedByMe = True,
                relation = Some outgoing\<rparr>
           | None \<Rightarrow>
               (case find (\<lambda>r. from_user r = userId \<and> to_user r = user_id currentUser)
                       (relationsSignal s) of
                  Some incoming \<Rightarrow>
                    \<lparr>status_type =
                       Rel (if rel_type incoming = pending_sent then pending_received
                            else rel_type incoming),
                     isInitiatedByMe = False, relation = Some incoming\<rparr>
                | None \<Rightarrow>
                    \<lparr>status_type = no_relation, isInitiatedByMe = False, relation = None\<rparr>)))"

text \<open>\<^verbatim>\<open>items[0]\<close> of a non-empty page.\<close>

definition getRelationStatusFromDB :: "app \<Rightarrow> backend \<Rightarrow> string \<Rightarrow> IRelationStatus \<times> backend" where
  "getRelationStatusFromDB s pb userId =
     (case user s of
        None \<Rightarrow> (\<lparr>status_type = no_relation, isInitiatedByMe = False, relation = None\<rparr>, pb)
      | Some currentUser \<Rightarrow>
          (case relations_getList 1 1
                  (\<lambda>r. from_user r = user_id currentUser \<and> to_user r = userId) (\<lambda>xs. xs) False pb of
             (Inl error, pb1) \<Rightarrow>
               (\<lparr>status_type = no_relation, isInitiatedByMe = False, relation = None\<rparr>, pb1)
           | (Inr (outgoing # rest), pb1) \<Rightarrow>
               (\<lparr>status_type = Rel (rel_type outgoing), isInitiatedByMe = True,
                 relation = Some outgoing\<rparr>, pb1)
           | (Inr [], pb1) \<Rightarrow>
               (case relations_getList 1 1
                       (\<lambda>r. from_user r = userId \<and> to_user r = user_id currentUser) (\<lambda>xs. xs) False
                       pb1 of
                  (Inl error, pb2) \<Rightarrow>
                    (\<lparr>status_type = no_relation, isInitiatedByMe = False, relation = None\<rparr>, pb2)
                | (Inr (incoming # rest), pb2) \<Rightarrow>
                    (\<lparr>status_type =
                        Rel (if rel_type incoming = pending_sent then pending_received
                             else rel_type incoming),
                      isInitiatedByMe = False, relation = Some incoming\<rparr>, pb2)
                | (Inr [], pb2) \<Rightarrow>
                    (\<lparr>status_type = no_relation, isInitiatedByMe = False, relation = None\<rparr>,
                     pb2))))"

definition isBlockedByMe :: "app \<Rightarrow> string \<Rightarrow> bool" where
  "isBlockedByMe s userId =
     (let status = getRelationStatus s userId
      in status_type status = Rel blocked \<and> isInitiatedByMe status)"

definition isBlockedBy :: "app \<Rightarrow> string \<Rightarrow> bool" where
  "isBlockedBy s userId =
     (let status = getRelationStatus s userId
      in status_type status = Rel blocked \<and> \<not> isInitiatedByMe status)"

definition areFriends :: "app \<Rightarrow> string \<Rightarrow> bool" where
  "areFriends s userId = (status_type (getRelationStatus s userId) = Rel friend)"

text \<open>The status as it prints in a template string.\<close>

fun type_name :: "ComputedRelationType \<Rightarrow> string" where
  "type_name (Rel friend) = ''friend''"
| "type_name (Rel blocked) = ''blocked''"
| "type_name (Rel pending_sent) = ''pending_sent''"
| "type_name (Rel pending_received) = ''pending_received''"
| "type_name no_relation = ''no_relation''"

definition sendFriendRequest :: "app \<Rightarrow> backend \<Rightarrow> string \<Rightarrow> IRelation outcome" where
  "sendFriendRequest s pb targetUserId =
     (case user s of
        None \<Rightarrow> (Inl (Error not_authenticated None), s, pb)
      | Some currentUser \<Rightarrow>
          if user_id currentUser = targetUserId
          then (Inl (Error cannot_relate_self None), s, pb)
          else
            (let status = getRelationStatus s targetUserId
             in if status_type status \<noteq> no_relation
                then (Inl (Error (''Cannot send request: user status is ''
                                    @ type_name (status_type status)) None), s, pb)
                else
                  (case relations_create (user_id currentUser) targetUserId pending_sent True pb of
                     (Inr rel, pb') \<Rightarrow>
                       (Inr rel, s\<lparr>relationsSignal := relationsSignal s @ [rel]\<rparr>, pb')
                   | (Inl error, pb') \<Rightarrow>
                       (let errorMessage = handleError ''RelationService.sendFriendRequest'' error
                                             ''Failed to send friend request''
                        in (Inl (Error errorMessage None),
                            s\<lparr>relationErrorSignal := Some errorMessage\<rparr>, pb')))))"

text \<open>
  The \<^verbatim>\<open>catch\<close> block shared by the mutating operations: the error signal is set to
  the extracted message and a new error with that message is thrown.
\<close>

definition relation_rethrow :: "string \<Rightarrow> string \<Rightarrow> js_error \<Rightarrow> app \<Rightarrow> backend \<Rightarrow> 'a outcome" where
  "relation_rethrow ctxt defaultMessage error s pb =
     (let errorMessage = handleError ctxt error defaultMessage
      in (Inl (Error errorMessage None), s\<lparr>relationErrorSignal := Some errorMessage\<rparr>, pb))"

definition accept_failed :: string where
  "accept_failed =
     ''Failed to accept friend request. This may be due to insufficient backend permissions.''"

definition acceptFriendRequest :: "app \<Rightarrow> backend \<Rightarrow> string \<Rightarrow> unit outcome" where
  "acceptFriendRequest s pb targetUserId =
     (case user s of
        None \<Rightarrow> (Inl (Error not_authenticated None), s, pb)
      | Some currentUser \<Rightarrow>
          (let status = getRelationStatus s targetUserId
           in case relation status of
                None \<Rightarrow> (Inl (Error ''No pending friend request from this user'' None), s, pb)
              | Some rel \<Rightarrow>
                  if status_type status \<noteq> Rel pending_received
                  then (Inl (Error ''No pending friend request from this user'' None), s, pb)
                  else
                    (let incomingRelationId = rel_id rel
                     in case relations_update incomingRelationId friend True pb of
                          (Inl error, pb1) \<Rightarrow>
                            relation_rethrow ''RelationService.acceptFriendRequest'' accept_failed error s pb1
                        | (Inr updatedRelation, pb1) \<Rightarrow>
                            (let s1 = s\<lparr>relationsSignal :=
                                          map (\<lambda>r. if rel_id r = incomingRelationId
                                                    then updatedRelation else r)
                                            (relationsSignal s)\<rparr>;
                                 written =
                                   (case find (\<lambda>r. from_user r = user_id currentUser
                                                    \<and> to_user r = targetUserId)
                                           (relationsSignal s1) of
                                      Some outgoingRelation \<Rightarrow>
                                        relations_update (rel_id outgoingRelation) friend True pb1
                                    | None \<Rightarrow>
                                        relations_create (user_id currentUser) targetUserId friend
                                          True pb1)
                             in case written of
                                  (Inl error, pb2) \<Rightarrow>
                                    relation_rethrow ''RelationService.acceptFriendRequest'' accept_failed
                                      error s1 pb2
                                | (Inr reciprocal, pb2) \<Rightarrow>
                                    (let (s3, pb3) = fetchRelations s1 pb2
                                     in (Inr (), s3, pb3))))))"

text \<open>
  \<^verbatim>\<open>removeFriend\<close>. The local update drops the records that carry the identifier of
  the status relation or of the reciprocal and have type \<^verbatim>\<open>friend\<close>.
\<close>

definition removeFriend :: "app \<Rightarrow> backend \<Rightarrow> string \<Rightarrow> unit outcome" where
  "removeFriend s pb targetUserId =
     (case user s of
        None \<Rightarrow> (Inl (Error not_authenticated None), s, pb)
      | Some currentUser \<Rightarrow>
          (let status = getRelationStatus s targetUserId
           in case relation status of
                None \<Rightarrow> (Inl (Error ''User is not your friend'' None), s, pb)
              | Some rel \<Rightarrow>
                  if status_type status \<noteq> Rel friend
                  then (Inl (Error ''User is not your friend'' None), s, pb)
                  else
                    (case relations_delete (rel_id rel) pb of
                       (Inl error, pb1) \<Rightarrow>
                         relation_rethrow ''RelationService.removeFriend'' ''Failed to remove friend'' error s pb1
                     | (Inr u, pb1) \<Rightarrow>
                         (let reciprocal =
                                find (\<lambda>r. from_user r = targetUserId
                                            \<and> to_user r = user_id currentUser \<and> rel_type r = friend)
                                  (relationsSignal s);
                              deleted =
                                (case reciprocal of
                                   Some rec \<Rightarrow> relations_delete (rel_id rec) pb1
                                 | None \<Rightarrow> (Inr (), pb1))
                          in case deleted of
                               (Inl error, pb2) \<Rightarrow>
                                 relation_rethrow ''RelationService.removeFriend'' ''Failed to remove friend''
                                   error s pb2
                             | (Inr u2, pb2) \<Rightarrow>
                                 (Inr (),
                                  s\<lparr>relationsSignal :=
                                      filter (\<lambda>r. \<not> ((rel_id r = rel_id rel
                                                        \<or> (case reciprocal of
                                                              Some rec \<Rightarrow> rel_id r = rel_id rec
                                                            | None \<Rightarrow> False))
                                                       \<and> rel_type r = friend))
                                        (relationsSignal s)\<rparr>,
                                  pb2)))))"

text \<open>
  \<^verbatim>\<open>blockUser\<close>, in the two steps of its \<^verbatim>\<open>try\<close> block: the friendship is torn
  down first when the users are friends, then the blocked relation is written.
  Whatever either step throws is caught, recorded and thrown again.
\<close>

definition blockUser_teardown :: "app \<Rightarrow> backend \<Rightarrow> string \<Rightarrow> unit outcome" where
  "blockUser_teardown s pb targetUserId =
     (if areFriends s targetUserId then removeFriend s pb targetUserId else (Inr (), s, pb))"

definition blockUser_establish :: "IAuthUser \<Rightarrow> app \<Rightarrow> backend \<Rightarrow> string \<Rightarrow> IRelation outcome" where
  "blockUser_establish currentUser s pb targetUserId =
     (let status = getRelationStatus s targetUserId
      in if status_type status = Rel blocked \<and> isInitiatedByMe status
         then (Inl (Error already_blocked None), s, pb)
         else
           (let written =
                  (if status_type status = Rel blocked \<and> \<not> isInitiatedByMe status
                   then relations_create (user_id currentUser) targetUserId blocked True pb
                   else case relation status of
                          Some rel \<Rightarrow> relations_update (rel_id rel) blocked False pb
                        | None \<Rightarrow>
                            relations_create (user_id currentUser) targetUserId blocked True pb)
            in case written of
                 (Inl error, pb1) \<Rightarrow> (Inl error, s, pb1)
               | (Inr blockedRelation, pb1) \<Rightarrow>
                   (Inr blockedRelation,
                    (case relation status of
                       Some rel \<Rightarrow>
                         s\<lparr>relationsSignal :=
                             map (\<lambda>r. if rel_id r = rel_id rel then blockedRelation else r)
                               (relationsSignal s)\<rparr>
                     | None \<Rightarrow> s\<lparr>relationsSignal := relationsSignal s @ [blockedRelation]\<rparr>),
                    pb1)))"

definition blockUser :: "app \<Rightarrow> backend \<Rightarrow> string \<Rightarrow> IRelation outcome" where
  "blockUser s pb targetUserId =
     (case user s of
        None \<Rightarrow> (Inl (Error not_authenticated None), s, pb)
      | Some currentUser \<Rightarrow>
          if user_id currentUser = targetUserId
          then (Inl (Error cannot_relate_self None), s, pb)
          else
            (case blockUser_teardown s pb targetUserId of
               (Inl error, s1, pb1) \<Rightarrow>
                 relation_rethrow ''RelationService.blockUser'' ''Failed to block user'' error s1 pb1
             | (Inr u, s1, pb1) \<Rightarrow>
                 (case blockUser_establish currentUser s1 pb1 targetUserId of
                    (Inl error, s2, pb2) \<Rightarrow>
                      relation_rethrow ''RelationService.blockUser'' ''Failed to block user'' error s2 pb2
                  | (Inr blockedRelation, s2, pb2) \<Rightarrow> (Inr blockedRelation, s2, pb2))))"

text \<open>
  The values the relation signal takes while \<^verbatim>\<open>blockUser\<close> runs, in order: its value
  at the call, after the tear-down step and after the write of the blocked relation.
  Each step writes the signal at most once, as its last action.
\<close>

definition blockUser_signal_values :: "app \<Rightarrow> backend \<Rightarrow> string \<Rightarrow> IRelation list list" where
  "blockUser_signal_values s pb targetUserId =
     (case user s of
        None \<Rightarrow> [relationsSignal s]
      | Some currentUser \<Rightarrow>
          if user_id currentUser = targetUserId then [relationsSignal s]
          else
            (case blockUser_teardown s pb targetUserId of
               (Inl error, s1, pb1) \<Rightarrow> [relationsSignal s, relationsSignal s1]
             | (Inr u, s1, pb1) \<Rightarrow>
                 (case blockUser_establish currentUser s1 pb1 targetUserId of
                    (r, s2, pb2) \<Rightarrow> [relationsSignal s, relationsSignal s1, relationsSignal s2])))"



section \<open>ConversationService\<close>

definition getOtherParticipant :: "app \<Rightarrow> IConversation \<Rightarrow> IAuthUser option" where
  "getOtherParticipant s conversation =
     (case user s of
        None \<Rightarrow> None
      | Some currentUser \<Rightarrow>
          (case conv_expand conversation of
             None \<Rightarrow> None
           | Some ps \<Rightarrow> find (\<lambda>p. user_id p \<noteq> user_id currentUser) ps))"

text \<open>The filter of the friendship query: a \<^verbatim>\<open>friend\<close> record in either direction.\<close>

definition friendship_filter :: "string \<Rightarrow> string \<Rightarrow> IRelation \<Rightarrow> bool" where
  "friendship_filter me other r =
     ((from_user r = me \<and> to_user r = other \<and> rel_type r = friend)
      \<or> (from_user r = other \<and> to_user r = me \<and> rel_type r = friend))"

text \<open>The \<^verbatim>\<open>for\<close> loop of \<^verbatim>\<open>fetchConversations\<close> over the fetched page.\<close>

fun filterConversations ::
  "app \<Rightarrow> IAuthUser \<Rightarrow> IConversation list \<Rightarrow> backend \<Rightarrow> IConversation list \<times> backend" where
  "filterConversations s currentUser [] pb = ([], pb)"
| "filterConversations s currentUser (conversation # rest) pb =
     (case getOtherParticipant s conversation of
        None \<Rightarrow> filterConversations s currentUser rest pb
      | Some otherParticipant \<Rightarrow>
          if isBlockedByMe s (user_id otherParticipant)
          then filterConversations s currentUser rest pb
          else if isBlockedBy s (user_id otherParticipant)
          then filterConversations s currentUser rest pb
          else
            (case relations_getList 1 1
                    (friendship_filter (user_id currentUser) (user_id otherParticipant))
                    (\<lambda>xs. xs) False pb of
               (Inr friendshipRelations, pb1) \<Rightarrow>
                 if length friendshipRelations > 0
                 then (let (kept, pb2) = filterConversations s currentUser rest pb1
                       in (conversation # kept, pb2))
                 else filterConversations s currentUser rest pb1
             | (Inl error, pb1) \<Rightarrow> filterConversations s currentUser rest pb1))"

definition fetchConversations :: "app \<Rightarrow> backend \<Rightarrow> app \<times> backend" where
  "fetchConversations s pb =
     (case user s of
        None \<Rightarrow> (s, pb)
      | Some currentUser \<Rightarrow>
          (let s1 = s\<lparr>conversationLoadingSignal := True, conversationErrorSignal := None\<rparr>
           in case conversations_getList 1 50 (\<lambda>c. user_id currentUser \<in> set (participants c))
                     (sort_desc conv_updated) pb of
                (Inl error, pb1) \<Rightarrow>
                  (s1\<lparr>conversationErrorSignal :=
                        Some (if message error \<noteq> [] then message error
                              else ''Failed to fetch conversations''),
                      conversationLoadingSignal := False\<rparr>, pb1)
              | (Inr items, pb1) \<Rightarrow>
                  (let (filteredConversations, pb2) = filterConversations s1 currentUser items pb1
                   in (s1\<lparr>conversationsSignal := filteredConversations,
                          conversationLoadingSignal := False\<rparr>, pb2))))"

definition getOrCreateConversation :: "app \<Rightarrow> backend \<Rightarrow> string \<Rightarrow> IConversation outcome" where
  "getOrCreateConversation s pb otherUserId =
     (case user s of
        None \<Rightarrow> (Inl (Error ''User not authenticated'' None), s, pb)
      | Some currentUser \<Rightarrow>
          if status_type (getRelationStatus s otherUserId) \<noteq> Rel friend
          then (Inl (Error ''You can only chat with friends. Send a friend request first.'' None),
                s, pb)
          else
            (let failed = (\<lambda>error s' pb'.
                   (let errorMessage = (if message error \<noteq> [] then message error
                                        else ''Failed to create conversation'')
                    in (Inl (Error errorMessage None),
                        s'\<lparr>conversationErrorSignal := Some errorMessage\<rparr>, pb')))
             in case conversations_getList 1 1
                       (\<lambda>c. user_id currentUser \<in> set (participants c)
                             \<and> otherUserId \<in> set (participants c)) (\<lambda>xs. xs) pb of
                  (Inl error, pb1) \<Rightarrow> failed error s pb1
                | (Inr (existing # others), pb1) \<Rightarrow> (Inr existing, s, pb1)
                | (Inr [], pb1) \<Rightarrow>
                    (case conversations_create [user_id currentUser, otherUserId] pb1 of
                       (Inl error, pb2) \<Rightarrow> failed error s pb2
                     | (Inr newConversation, pb2) \<Rightarrow>
                         (Inr newConversation,
                          s\<lparr>conversationsSignal := newConversation # conversationsSignal s\<rparr>,
                          pb2))))"

text \<open>
  \<^verbatim>\<open>handleConversationCreateOrUpdate\<close>: only the identifier of the event's record is
  used; the record is fetched again with its participants expanded.
\<close>

definition handleConversationCreateOrUpdate :: "app \<Rightarrow> backend \<Rightarrow> string \<Rightarrow> app \<times> backend" where
  "handleConversationCreateOrUpdate s pb recordId =
     (case conversations_getOne recordId pb of
        (Inl error, pb1) \<Rightarrow> (s, pb1)
      | (Inr fullRecord, pb1) \<Rightarrow>
          (let removed = s\<lparr>conversationsSignal :=
                             filter (\<lambda>c. conv_id c \<noteq> conv_id fullRecord) (conversationsSignal s)\<rparr>
           in case user s of
                None \<Rightarrow> (removed, pb1)
              | Some currentUser \<Rightarrow>
                  (case getOtherParticipant s fullRecord of
                     None \<Rightarrow> (removed, pb1)
                   | Some otherParticipant \<Rightarrow>
                       if isBlockedByMe s (user_id otherParticipant)
                          \<or> isBlockedBy s (user_id otherParticipant)
                       then (removed, pb1)
                       else
                         (case relations_getList 1 1
                                 (friendship_filter (user_id currentUser) (user_id otherParticipant))
                                 (\<lambda>xs. xs) False pb1 of
                            (Inl error, pb2) \<Rightarrow> (removed, pb2)
                          | (Inr friendshipRelations, pb2) \<Rightarrow>
                              if length friendshipRelations = 0 then (removed, pb2)
                              else
                                (s\<lparr>conversationsSignal :=
                                     (if list_ex (\<lambda>c. conv_id c = conv_id fullRecord)
                                           (conversationsSignal s)
                                      then map (\<lambda>c. if conv_id c = conv_id fullRecord
                                                     then fullRecord else c)
                                             (conversationsSignal s)
                                      else fullRecord # conversationsSignal s)\<rparr>,
                                 pb2)))))"

text \<open>
  The check that \<^verbatim>\<open>fetchConversations\<close> and
  \<^verbatim>\<open>handleConversationCreateOrUpdate\<close> both apply to a conversation, for a
  friendship query that succeeds on the stored relations: the other participant
  resolves, the computed status with them is not \<open>blocked\<close> in either
  direction, and the query finds a \<open>friend\<close> record.
\<close>

definition shown :: "app \<Rightarrow> IRelation list \<Rightarrow> IConversation \<Rightarrow> bool" where
  "shown s stored conversation =
     (case user s of
        None \<Rightarrow> False
      | Some currentUser \<Rightarrow>
          (case getOtherParticipant s conversation of
             None \<Rightarrow> False
           | Some otherParticipant \<Rightarrow>
               \<not> isBlockedByMe s (user_id otherParticipant)
               \<and> \<not> isBlockedBy s (user_id otherParticipant)
               \<and> list_ex (friendship_filter (user_id currentUser) (user_id otherParticipant))
                     stored))"

text \<open>
  The visibility condition in terms of stored edges, for comparison with \<open>shown\<close>:
  the other participant resolves, the relation collection holds no \<open>blocked\<close>
  edge between the two users in either direction, and the stored relations hold a
  \<open>friend\<close> edge between them in at least one direction.
\<close>

definition blocked_between :: "string \<Rightarrow> string \<Rightarrow> IRelation \<Rightarrow> bool" where
  "blocked_between me other r =
     (rel_type r = blocked
      \<and> ((from_user r = me \<and> to_user r = other) \<or> (from_user r = other \<and> to_user r = me)))"

definition eligible :: "app \<Rightarrow> IRelation list \<Rightarrow> IConversation \<Rightarrow> bool" where
  "eligible s stored conversation =
     (case user s of
        None \<Rightarrow> False
      | Some currentUser \<Rightarrow>
          (case getOtherParticipant s conversation of
             None \<Rightarrow> False
           | Some otherParticipant \<Rightarrow>
               \<not> list_ex (blocked_between (user_id currentUser) (user_id otherParticipant))
                     (relationsSignal s)
               \<and> list_ex (friendship_filter (user_id currentUser) (user_id otherParticipant))
                     stored))"

text \<open>
  Every \<open>blocked\<close> edge of the relation collection that touches the local user
  shows in the computed status with its other end: no earlier record of the
  collection answers for that user instead.
\<close>

definition blocks_unshadowed :: "app \<Rightarrow> bool" where
  "blocks_unshadowed s =
     (case user s of
        None \<Rightarrow> True
      | Some currentUser \<Rightarrow>
          list_all (\<lambda>r. rel_type r = blocked \<longrightarrow>
                      (from_user r = user_id currentUser \<longrightarrow>
                         status_type (getRelationStatus s (to_user r)) = Rel blocked)
                      \<and> (to_user r = user_id currentUser \<longrightarrow>
                         status_type (getRelationStatus s (from_user r)) = Rel blocked))
            (relationsSignal s))"

definition getConversationById :: "backend \<Rightarrow> string \<Rightarrow> IConversation option \<times> backend" where
  "getConversationById pb conversationId =
     (case conversations_getOne conversationId pb of
        (Inr conversation, pb1) \<Rightarrow> (Some conversation, pb1)
      | (Inl error, pb1) \<Rightarrow> (None, pb1))"

section \<open>ChatService\<close>

text \<open>
  \<^verbatim>\<open>String.prototype.trim\<close>. A text is held as the bytes of its UTF-8 encoding;
  \<open>white_space\<close> lists the encodings of the code points that ECMAScript counts
  as white space or line terminator: U+0009 to U+000D, U+0020, U+00A0, U+1680,
  U+2000 to U+200A, U+2028, U+2029, U+202F, U+205F, U+3000 and U+FEFF.
  \<open>strip\<close> removes the listed sequences from the front for as long as one
  matches; \<open>trim\<close> does so at both ends.
\<close>

definition white_space :: "string list" where
  "white_space =
     [ [CHR 0x09], [CHR 0x0A], [CHR 0x0B], [CHR 0x0C], [CHR 0x0D], [CHR 0x20],
       [CHR 0xC2, CHR 0xA0],
       [CHR 0xE1, CHR 0x9A, CHR 0x80],
       [CHR 0xE2, CHR 0x80, CHR 0x80], [CHR 0xE2, CHR 0x80, CHR 0x81],
       [CHR 0xE2, CHR 0x80, CHR 0x82], [CHR 0xE2, CHR 0x80, CHR 0x83],
       [CHR 0xE2, CHR 0x80, CHR 0x84], [CHR 0xE2, CHR 0x80, CHR 0x85],
       [CHR 0xE2, CHR 0x80, CHR 0x86], [CHR 0xE2, CHR 0x80, CHR 0x87],
       [CHR 0xE2, CHR 0x80, CHR 0x88], [CHR 0xE2, CHR 0x80, CHR 0x89],
       [CHR 0xE2, CHR 0x80, CHR 0x8A],
       [CHR 0xE2, CHR 0x80, CHR 0xA8], [CHR 0xE2, CHR 0x80, CHR 0xA9],
       [CHR 0xE2, CHR 0x80, CHR 0xAF],
       [CHR 0xE2, CHR 0x81, CHR 0x9F],
       [CHR 0xE3, CHR 0x80, CHR 0x80],
       [CHR 0xEF, CHR 0xBB, CHR 0xBF] ]"

function strip :: "string list \<Rightarrow> string \<Rightarrow> string" where
  "strip ws t =
     (case find (\<lambda>w. w \<noteq> [] \<and> take (length w) t = w) ws of
        None \<Rightarrow> t
      | Some w \<Rightarrow> strip ws (drop (length w) t))"
  by pat_completeness auto
termination
proof (relation "measure (\<lambda>(ws, t). length t)")
  show "wf (measure (\<lambda>(ws, t). length t))" by simp
next
  fix ws :: "string list" and t w :: string
  assume "find (\<lambda>w. w \<noteq> [] \<and> take (length w) t = w) ws = Some w"
  then have w: "w \<noteq> []" "take (length w) t = w" by (auto simp: find_Some_iff)
  then have "t \<noteq> []" by auto
  with w show "((ws, drop (length w) t), (ws, t)) \<in> measure (\<lambda>(ws, t). length t)"
    by (cases w) auto
qed

declare strip.simps [simp del]

definition trim :: "string \<Rightarrow> string" where
  "trim t = rev (strip (map rev white_space) (rev (strip white_space t)))"

definition blocked_by_me_message :: string where
  "blocked_by_me_message = ''You have blocked this user. Unblock them to send messages.''"

definition blocked_by_them_message :: string where
  "blocked_by_them_message = ''This user has blocked you. You cannot send messages.''"

text \<open>\<^verbatim>\<open>checkBlockStatus\<close>; an empty identifier is falsy, like a missing one.\<close>

definition checkBlockStatus :: "app \<Rightarrow> backend \<Rightarrow> string \<Rightarrow> unit reply" where
  "checkBlockStatus s pb conversationId =
     (case user s of
        None \<Rightarrow> (Inr (), pb)
      | Some currentUser \<Rightarrow>
          (case getConversationById pb conversationId of
             (None, pb1) \<Rightarrow> (Inl (Error ''Conversation not found'' None), pb1)
           | (Some conversation, pb1) \<Rightarrow>
               (case find (\<lambda>i. i \<noteq> user_id currentUser) (participants conversation) of
                  None \<Rightarrow> (Inl (Error ''Cannot determine other participant'' None), pb1)
                | Some otherUserId \<Rightarrow>
                    if otherUserId = []
                    then (Inl (Error ''Cannot determine other participant'' None), pb1)
                    else if isBlockedByMe s otherUserId
                    then (Inl (Error blocked_by_me_message None), pb1)
                    else if isBlockedBy s otherUserId
                    then (Inl (Error blocked_by_them_message None), pb1)
                    else (Inr (), pb1))))"

definition chat_rethrow :: "string \<Rightarrow> string \<Rightarrow> js_error \<Rightarrow> app \<Rightarrow> backend \<Rightarrow> 'a outcome" where
  "chat_rethrow ctxt defaultMessage error s pb =
     (let errorMessage = handleError ctxt error defaultMessage
      in (Inl (Error errorMessage None), s\<lparr>chatErrorSignal := Some errorMessage\<rparr>, pb))"

text \<open>
  \<^verbatim>\<open>sendMessage\<close>; \<open>now\<close> is \<^verbatim>\<open>new Date().toISOString()\<close> at the time of the
  conversation update.
\<close>

definition sendMessage :: "app \<Rightarrow> backend \<Rightarrow> string \<Rightarrow> string \<Rightarrow> string \<Rightarrow> IMessage outcome" where
  "sendMessage s pb now conversationId txt =
     (case user s of
        None \<Rightarrow> (Inl (Error ''User not authenticated'' None), s, pb)
      | Some currentUser \<Rightarrow>
          if trim txt = [] then (Inl (Error ''Message text cannot be empty'' None), s, pb)
          else
            (case checkBlockStatus s pb conversationId of
               (Inl error, pb1) \<Rightarrow>
                 chat_rethrow ''ChatService.sendMessage'' ''Failed to send message'' error s pb1
             | (Inr u, pb1) \<Rightarrow>
                 (case messages_create (trim txt) (user_id currentUser) conversationId pb1 of
                    (Inl error, pb2) \<Rightarrow>
                      chat_rethrow ''ChatService.sendMessage'' ''Failed to send message'' error s pb2
                  | (Inr createdMessage, pb2) \<Rightarrow>
                      (case conversations_update conversationId now pb2 of
                         (Inl error, pb3) \<Rightarrow>
                           chat_rethrow ''ChatService.sendMessage'' ''Failed to send message''
                             error s pb3
                       | (Inr updatedConversation, pb3) \<Rightarrow> (Inr createdMessage, s, pb3)))))"


section \<open>The example scenario\<close>

text \<open>
  The users of the specification's scenario, \<^verbatim>\<open>alice\<close> (U1) and \<^verbatim>\<open>bob\<close> (U2), a
  client of one of them holding given relations, and a backend without failures.
\<close>

definition alice :: IAuthUser where
  "alice = \<lparr>user_id = ''U1'', email = ''alice@example.org'', username = ''alice'', avatar = None\<rparr>"

definition bob :: IAuthUser where
  "bob = \<lparr>user_id = ''U2'', email = ''bob@example.org'', username = ''bob'', avatar = None\<rparr>"

definition edge :: "string \<Rightarrow> string \<Rightarrow> string \<Rightarrow> RelationType \<Rightarrow> IRelation" where
  "edge i a b t =
     \<lparr>rel_id = i, from_user = a, to_user = b, rel_type = t, rel_created = ''2024-05-01'',
      rel_updated = ''2024-05-01'', rel_expand = None\<rparr>"

definition chat :: "string \<Rightarrow> string list \<Rightarrow> IConversation" where
  "chat i ps =
     \<lparr>conv_id = i, participants = ps, conv_created = ''2024-05-02'', conv_updated = ''2024-05-02'',
      conv_expand = None\<rparr>"

definition text_message :: "string \<Rightarrow> string \<Rightarrow> string \<Rightarrow> string \<Rightarrow> IMessage" where
  "text_message i u c t =
     \<lparr>msg_id = i, msg_text = Some t, msg_user = u, msg_conversation = Some c, msg_file = None,
      fileType = None, fileName = None, fileSize = None, thumbnail = None, collectionId = None,
      collectionName = None, msg_created = ''2024-05-03'', msg_updated = ''2024-05-03'',
      msg_expand = None\<rparr>"

definition client :: "IAuthUser \<Rightarrow> IRelation list \<Rightarrow> IConversation list \<Rightarrow> app" where
  "client u rels convs =
     \<lparr>user = Some u, relationsSignal = rels, relationErrorSignal = None,
      relationLoadingSignal = False, processingIds = {}, conversationsSignal = convs,
      conversationErrorSignal = None, conversationLoadingSignal = False, messagesSignal = [],
      chatErrorSignal = None, chatLoadingSignal = False\<rparr>"

definition server :: "IRelation list \<Rightarrow> IConversation list \<Rightarrow> backend" where
  "server rels convs =
     \<lparr>users_col = [alice, bob], relations_col = rels, conversations_col = convs,
      messages_col = [], calls = 0, faults = (\<lambda>n. None),
      new_ids = (\<lambda>n. replicate (Suc n) (CHR ''n'')), clock = (\<lambda>n. ''2024-06-01'')\<rparr>"

text \<open>Alice's client and the backend once alice and bob are mutual friends.\<close>

definition friends_client :: app where
  "friends_client =
     client alice [edge ''r1'' ''U1'' ''U2'' friend, edge ''r2'' ''U2'' ''U1'' friend] []"

definition friends_server :: backend where
  "friends_server =
     server [edge ''r1'' ''U1'' ''U2'' friend, edge ''r2'' ''U2'' ''U1'' friend] []"

section \<open>Computed relation status\<close>

lemma find_filter_hd: "find P xs = (case filter P xs of [] \<Rightarrow> None | x # _ \<Rightarrow> Some x)"
  by (induction xs) auto

text \<open>
  Claim C2. For a signed-in user, \<^verbatim>\<open>getRelationStatus\<close> answers from the first
  outgoing edge (local to other) when there is one, with its kind and
  \<open>isInitiatedByMe = True\<close>; otherwise from the first incoming edge (other to
  local) with \<open>pending_sent\<close> read as \<open>pending_received\<close> and
  \<open>isInitiatedByMe = False\<close>; and with \<open>no_relation\<close> when both are absent.
  In particular, when the only edge between two distinct users A and B held by A's
  client and by B's client is one \<open>pending_sent\<close> edge from A to B, A's status
  toward B is \<open>pending_sent\<close> and B's status toward A is \<open>pending_received\<close>.
\<close>

theorem getRelationStatus_directions:
  "(user s = Some me \<longrightarrow>
     (\<forall>r rs. filter (\<lambda>r. from_user r = user_id me \<and> to_user r = other) (relationsSignal s) = r # rs
        \<longrightarrow> getRelationStatus s other =
              \<lparr>status_type = Rel (rel_type r), isInitiatedByMe = True, relation = Some r\<rparr>)
   \<and> (filter (\<lambda>r. from_user r = user_id me \<and> to_user r = other) (relationsSignal s) = []
        \<longrightarrow> (\<forall>r rs. filter (\<lambda>r. from_user r = other \<and> to_user r = user_id me) (relationsSignal s)
                        = r # rs
              \<longrightarrow> getRelationStatus s other =
                    \<lparr>status_type = Rel (if rel_type r = pending_sent then pending_received
                                        else rel_type r),
                     isInitiatedByMe = False, relation = Some r\<rparr>)
          \<and> (filter (\<lambda>r. from_user r = other \<and> to_user r = user_id me) (relationsSignal s) = []
              \<longrightarrow> getRelationStatus s other =
                    \<lparr>status_type = no_relation, isInitiatedByMe = False, relation = None\<rparr>)))
   \<and> (user sA = Some a \<and> user sB = Some b \<and> user_id a \<noteq> user_id b
        \<and> filter (\<lambda>r. (from_user r = user_id a \<and> to_user r = user_id b)
                       \<or> (from_user r = user_id b \<and> to_user r = user_id a)) (relationsSignal sA) = [eA]
        \<and> filter (\<lambda>r. (from_user r = user_id a \<and> to_user r = user_id b)
                       \<or> (from_user r = user_id b \<and> to_user r = user_id a)) (relationsSignal sB) = [eB]
        \<and> from_user eA = user_id a \<and> rel_type eA = pending_sent
        \<and> from_user eB = user_id a \<and> rel_type eB = pending_sent
      \<longrightarrow> getRelationStatus sA (user_id b) =
            \<lparr>status_type = Rel pending_sent, isInitiatedByMe = True, relation = Some eA\<rparr>
          \<and> getRelationStatus sB (user_id a) =
            \<lparr>status_type = Rel pending_received, isInitiatedByMe = False, relation = Some eB\<rparr>)"
proof -
  have general: "user s = Some me \<longrightarrow>
     (\<forall>r rs. filter (\<lambda>r. from_user r = user_id me \<and> to_user r = other) (relationsSignal s) = r # rs
        \<longrightarrow> getRelationStatus s other =
              \<lparr>status_type = Rel (rel_type r), isInitiatedByMe = True, relation = Some r\<rparr>)
   \<and> (filter (\<lambda>r. from_user r = user_id me \<and> to_user r = other) (relationsSignal s) = []
        \<longrightarrow> (\<forall>r rs. filter (\<lambda>r. from_user r = other \<and> to_user r = user_id me) (relationsSignal s)
                        = r # rs
              \<longrightarrow> getRelationStatus s other =
                    \<lparr>status_type = Rel (if rel_type r = pending_sent then pending_received
                                        else rel_type r),
                     isInitiatedByMe = False, relation = Some r\<rparr>)
          \<and> (filter (\<lambda>r. from_user r = other \<and> to_user r = user_id me) (relationsSignal s) = []
              \<longrightarrow> getRelationStatus s other =
                    \<lparr>status_type = no_relation, isInitiatedByMe = False, relation = None\<rparr>))"
    by (auto simp: getRelationStatus_def find_filter_hd split: list.splits)
  have single: "getRelationStatus sA (user_id b) =
            \<lparr>status_type = Rel pending_sent, isInitiatedByMe = True, relation = Some eA\<rparr>
          \<and> getRelationStatus sB (user_id a) =
            \<lparr>status_type = Rel pending_received, isInitiatedByMe = False, relation = Some eB\<rparr>"
    if u: "user sA = Some a" "user sB = Some b" "user_id a \<noteq> user_id b"
      and fA: "filter (\<lambda>r. (from_user r = user_id a \<and> to_user r = user_id b)
                       \<or> (from_user r = user_id b \<and> to_user r = user_id a)) (relationsSignal sA) = [eA]"
      and fB: "filter (\<lambda>r. (from_user r = user_id a \<and> to_user r = user_id b)
                       \<or> (from_user r = user_id b \<and> to_user r = user_id a)) (relationsSignal sB) = [eB]"
      and e: "from_user eA = user_id a" "rel_type eA = pending_sent"
             "from_user eB = user_id a" "rel_type eB = pending_sent"
  proof -
    have split_filter: "filter (\<lambda>r. from_user r = x \<and> to_user r = y) xs
        = filter (\<lambda>r. from_user r = x \<and> to_user r = y)
            (filter (\<lambda>r. (from_user r = user_id a \<and> to_user r = user_id b)
                       \<or> (from_user r = user_id b \<and> to_user r = user_id a)) xs)"
      if "(x = user_id a \<and> y = user_id b) \<or> (x = user_id b \<and> y = user_id a)" for x y xs
      using that by (induction xs) auto
    have eA_in: "to_user eA = user_id b"
      using fA e u(3) by (metis (mono_tags, lifting) filter_eq_ConsD)
    have eB_in: "to_user eB = user_id b"
      using fB e u(3) by (metis (mono_tags, lifting) filter_eq_ConsD)
    have A_out: "filter (\<lambda>r. from_user r = user_id a \<and> to_user r = user_id b) (relationsSignal sA) = [eA]"
      using split_filter[of "user_id a" "user_id b" "relationsSignal sA"] fA e eA_in by simp
    have B_out: "filter (\<lambda>r. from_user r = user_id b \<and> to_user r = user_id a) (relationsSignal sB) = []"
      using split_filter[of "user_id b" "user_id a" "relationsSignal sB"] fB e eB_in u(3) by simp
    have B_in: "filter (\<lambda>r. from_user r = user_id a \<and> to_user r = user_id b) (relationsSignal sB) = [eB]"
      using split_filter[of "user_id a" "user_id b" "relationsSignal sB"] fB e eB_in by simp
    show ?thesis
      using u A_out B_out B_in e
      by (simp add: getRelationStatus_def find_filter_hd)
  qed
  show ?thesis using general single by blast
qed

theorem getRelationStatus_directions_witness:
  "getRelationStatus (client alice [edge ''r1'' ''U1'' ''U2'' pending_sent] []) ''U2'' =
     \<lparr>status_type = Rel pending_sent, isInitiatedByMe = True,
      relation = Some (edge ''r1'' ''U1'' ''U2'' pending_sent)\<rparr>
   \<and> getRelationStatus (client bob [edge ''r1'' ''U1'' ''U2'' pending_sent] []) ''U1'' =
     \<lparr>status_type = Rel pending_received, isInitiatedByMe = False,
      relation = Some (edge ''r1'' ''U1'' ''U2'' pending_sent)\<rparr>
   \<and> getRelationStatus (client bob [] []) ''U1'' =
     \<lparr>status_type = no_relation, isInitiatedByMe = False, relation = None\<rparr>"
  using getRelationStatus_directions
    [of "client bob [] []" bob "''U1''"
        "client alice [edge ''r1'' ''U1'' ''U2'' pending_sent] []" alice
        "client bob [edge ''r1'' ''U1'' ''U2'' pending_sent] []" bob
        "edge ''r1'' ''U1'' ''U2'' pending_sent" "edge ''r1'' ''U1'' ''U2'' pending_sent"]
  by (simp add: client_def alice_def bob_def edge_def)

section \<open>Backend reads and writes\<close>

lemma page_one: "page_of (Suc 0) n xs = take n xs" "page_of 1 n xs = take n xs"
  by (simp_all add: page_of_def)

text \<open>
  Claim C9. When a backend query of \<^verbatim>\<open>getRelationStatusFromDB\<close> fails in transport
  (the first one, or the second one after the first found no outgoing record), the
  function throws nothing and returns \<open>no_relation\<close> with
  \<open>isInitiatedByMe = False\<close>: the value it also returns when both queries succeed
  and find no record.
\<close>

theorem getRelationStatusFromDB_swallows_failure:
  "(faults pb (calls pb) = Some e \<longrightarrow>
      fst (getRelationStatusFromDB s pb userId) =
        \<lparr>status_type = no_relation, isInitiatedByMe = False, relation = None\<rparr>)
   \<and> (user s = Some me \<and> faults pb (calls pb) = None
        \<and> filter (\<lambda>r. from_user r = user_id me \<and> to_user r = userId) (relations_col pb) = []
        \<and> faults pb (Suc (calls pb)) = Some e \<longrightarrow>
      fst (getRelationStatusFromDB s pb userId) =
        \<lparr>status_type = no_relation, isInitiatedByMe = False, relation = None\<rparr>)
   \<and> (user s = Some me \<and> faults pb (calls pb) = None \<and> faults pb (Suc (calls pb)) = None
        \<and> filter (\<lambda>r. from_user r = user_id me \<and> to_user r = userId) (relations_col pb) = []
        \<and> filter (\<lambda>r. from_user r = userId \<and> to_user r = user_id me) (relations_col pb) = [] \<longrightarrow>
      fst (getRelationStatusFromDB s pb userId) =
        \<lparr>status_type = no_relation, isInitiatedByMe = False, relation = None\<rparr>)"
  by (auto simp: getRelationStatusFromDB_def relations_getList_def request_def page_one Let_def
           split: option.splits)

theorem getRelationStatusFromDB_swallows_failure_witness:
  "fst (getRelationStatusFromDB (client bob [] [])
          ((server [edge ''r1'' ''U1'' ''U2'' friend] [])\<lparr>faults := (\<lambda>n. Some (Error ''offline'' None))\<rparr>)
          ''U1'') =
     \<lparr>status_type = no_relation, isInitiatedByMe = False, relation = None\<rparr>
   \<and> fst (getRelationStatusFromDB (client bob [] [])
          ((server [edge ''r1'' ''U1'' ''U2'' friend] [])
             \<lparr>faults := (\<lambda>n. if n = 1 then Some (Error ''offline'' None) else None)\<rparr>)
          ''U1'') =
     \<lparr>status_type = no_relation, isInitiatedByMe = False, relation = None\<rparr>
   \<and> fst (getRelationStatusFromDB (client bob [] []) (server [] []) ''U1'') =
     \<lparr>status_type = no_relation, isInitiatedByMe = False, relation = None\<rparr>
   \<and> fst (getRelationStatusFromDB (client bob [] []) (server [edge ''r1'' ''U1'' ''U2'' friend] []) ''U1'') =
     \<lparr>status_type = Rel friend, isInitiatedByMe = False,
      relation = Some (edge ''r1'' ''U1'' ''U2'' friend)\<rparr>"
  using getRelationStatusFromDB_swallows_failure
    [of "(server [edge ''r1'' ''U1'' ''U2'' friend] [])\<lparr>faults := (\<lambda>n. Some (Error ''offline'' None))\<rparr>"
        "Error ''offline'' None" "client bob [] []" "''U1''" bob]
  by (simp add: getRelationStatusFromDB_def relations_getList_def request_def page_one Let_def
        client_def server_def bob_def alice_def edge_def expand_relation_def)

text \<open>
  Claim C6. \<^verbatim>\<open>sendFriendRequest\<close> throws and leaves the client state and the backend
  as they were, request counter included (no backend call), when nobody is signed
  in, when the target is the local user or when the computed status with the target
  is not \<open>no_relation\<close>. When it returns a relation, the preconditions held, the
  relation is a \<open>pending_sent\<close> edge from the local user to the target, and the
  only changes are that edge appended to the backend's relations (by one request)
  and to the relation signal.
\<close>

theorem sendFriendRequest_guarded:
  "((user s = None \<or> (\<exists>cu. user s = Some cu \<and>
         (user_id cu = target \<or> status_type (getRelationStatus s target) \<noteq> no_relation)))
      \<longrightarrow> (\<exists>e. sendFriendRequest s pb target = (Inl e, s, pb)))
   \<and> (user s = Some me \<and> sendFriendRequest s pb target = (Inr rel, s', pb')
      \<longrightarrow> user_id me \<noteq> target \<and> status_type (getRelationStatus s target) = no_relation
          \<and> from_user rel = user_id me \<and> to_user rel = target \<and> rel_type rel = pending_sent
          \<and> s' = s\<lparr>relationsSignal := relationsSignal s @ [rel]\<rparr>
          \<and> pb' = pb\<lparr>calls := Suc (calls pb),
                      relations_col := relations_col pb @ [rel\<lparr>rel_expand := None\<rparr>]\<rparr>)"
  by (auto simp: sendFriendRequest_def relations_create_def request_def Let_def expand_relation_def
                 relation_rethrow_def
           split: option.splits if_splits prod.splits sum.splits)

theorem sendFriendRequest_guarded_witness:
  "sendFriendRequest (client alice [] []) (server [] []) ''U2'' =
     (Inr ((edge ''n'' ''U1'' ''U2'' pending_sent)
             \<lparr>rel_created := ''2024-06-01'', rel_updated := ''2024-06-01'',
              rel_expand := Some (Some alice, Some bob)\<rparr>),
      client alice [(edge ''n'' ''U1'' ''U2'' pending_sent)
             \<lparr>rel_created := ''2024-06-01'', rel_updated := ''2024-06-01'',
              rel_expand := Some (Some alice, Some bob)\<rparr>] [],
      (server [(edge ''n'' ''U1'' ''U2'' pending_sent)
             \<lparr>rel_created := ''2024-06-01'', rel_updated := ''2024-06-01''\<rparr>] [])\<lparr>calls := 1\<rparr>)
   \<and> (\<exists>e. sendFriendRequest (client alice [] []) (server [] []) ''U1'' =
          (Inl e, client alice [] [], server [] []))"
  using sendFriendRequest_guarded [of "client alice [] []" "''U1''" "server [] []"]
  by (simp add: sendFriendRequest_def getRelationStatus_def relations_create_def request_def
        expand_relation_def find_user_def client_def server_def alice_def bob_def edge_def)

section \<open>Blocking a user who blocked first\<close>

lemma find_map_replace:
  "P x \<Longrightarrow> \<forall>r\<in>set xs. \<not> P r \<Longrightarrow> \<exists>r\<in>set xs. Q r \<Longrightarrow>
     find P (map (\<lambda>r. if Q r then x else r) xs) = Some x"
  by (induction xs) auto

lemma status_from_incoming:
  assumes "user s = Some me" "\<not> isInitiatedByMe (getRelationStatus s t)"
    and "status_type (getRelationStatus s t) \<noteq> no_relation"
  shows "find (\<lambda>r. from_user r = user_id me \<and> to_user r = t) (relationsSignal s) = None
       \<and> (\<exists>inc. find (\<lambda>r. from_user r = t \<and> to_user r = user_id me) (relationsSignal s) = Some inc
              \<and> relation (getRelationStatus s t) = Some inc
              \<and> status_type (getRelationStatus s t) =
                   Rel (if rel_type inc = pending_sent then pending_received else rel_type inc))"
  using assms by (auto simp: getRelationStatus_def split: option.splits)

text \<open>
  When the target's computed status is \<open>blocked\<close> with
  \<open>isInitiatedByMe = False\<close> (the target blocked the local user first),
  \<^verbatim>\<open>blockUser\<close> takes the create branch: it succeeds whenever the create request
  does (no transport failure, fresh identifier), and whenever it returns, the
  backend's relations are the old ones, unchanged, followed by one new
  \<open>blocked\<close> edge from the local user to the target, and the local computed
  status toward the target is \<open>blocked\<close> with \<open>isInitiatedByMe = True\<close>.
  The local update then takes the branch for an updated record: every record of
  the relation signal that carries the identifier of the status relation, the
  client's copy of the target's edge, is replaced by the new edge.
\<close>

lemma blockUser_create_branch:
  "user s = Some me \<and> user_id me \<noteq> target
     \<and> status_type (getRelationStatus s target) = Rel blocked
     \<and> \<not> isInitiatedByMe (getRelationStatus s target)
   \<longrightarrow> (faults pb (calls pb) = None
          \<and> \<not> list_ex (\<lambda>r. rel_id r = new_ids pb (calls pb)) (relations_col pb)
        \<longrightarrow> (\<exists>rel s' pb'. blockUser s pb target = (Inr rel, s', pb')))
     \<and> (\<forall>rel s' pb'. blockUser s pb target = (Inr rel, s', pb')
        \<longrightarrow> from_user rel = user_id me \<and> to_user rel = target \<and> rel_type rel = blocked
            \<and> pb' = pb\<lparr>calls := Suc (calls pb),
                        relations_col := relations_col pb @ [rel\<lparr>rel_expand := None\<rparr>]\<rparr>
            \<and> status_type (getRelationStatus s' target) = Rel blocked
            \<and> isInitiatedByMe (getRelationStatus s' target)
            \<and> relation (getRelationStatus s' target) = Some rel
            \<and> (\<forall>inc. relation (getRelationStatus s target) = Some inc \<longrightarrow>
                  relationsSignal s' =
                    map (\<lambda>r. if rel_id r = rel_id inc then rel else r) (relationsSignal s)))"
proof (intro impI, elim conjE)
  assume u: "user s = Some me" and ne: "user_id me \<noteq> target"
    and st: "status_type (getRelationStatus s target) = Rel blocked"
    and ni: "\<not> isInitiatedByMe (getRelationStatus s target)"
  from status_from_incoming[OF u ni] st obtain inc where
    out: "find (\<lambda>r. from_user r = user_id me \<and> to_user r = target) (relationsSignal s) = None"
    and inc: "find (\<lambda>r. from_user r = target \<and> to_user r = user_id me) (relationsSignal s) = Some inc"
    and rel: "relation (getRelationStatus s target) = Some inc"
    by auto
  have nf: "\<not> areFriends s target" using st by (simp add: areFriends_def)
  have inc_in: "inc \<in> set (relationsSignal s)"
    using inc by (auto simp: find_Some_iff)
  have no_out: "\<forall>r\<in>set (relationsSignal s). \<not> (from_user r = user_id me \<and> to_user r = target)"
    using out by (simp add: find_None_iff)
  have after: "find (\<lambda>r. from_user r = user_id me \<and> to_user r = target)
                 (map (\<lambda>r. if rel_id r = rel_id inc then x else r) (relationsSignal s)) = Some x"
    if "from_user x = user_id me" "to_user x = target" for x
    using find_map_replace[of "\<lambda>r. from_user r = user_id me \<and> to_user r = target" x
            "relationsSignal s" "\<lambda>r. rel_id r = rel_id inc"] that no_out inc_in
    by auto
  show "(faults pb (calls pb) = None
          \<and> \<not> list_ex (\<lambda>r. rel_id r = new_ids pb (calls pb)) (relations_col pb)
        \<longrightarrow> (\<exists>rel s' pb'. blockUser s pb target = (Inr rel, s', pb')))
     \<and> (\<forall>rel s' pb'. blockUser s pb target = (Inr rel, s', pb')
        \<longrightarrow> from_user rel = user_id me \<and> to_user rel = target \<and> rel_type rel = blocked
            \<and> pb' = pb\<lparr>calls := Suc (calls pb),
                        relations_col := relations_col pb @ [rel\<lparr>rel_expand := None\<rparr>]\<rparr>
            \<and> status_type (getRelationStatus s' target) = Rel blocked
            \<and> isInitiatedByMe (getRelationStatus s' target)
            \<and> relation (getRelationStatus s' target) = Some rel
            \<and> (\<forall>inc. relation (getRelationStatus s target) = Some inc \<longrightarrow>
                  relationsSignal s' =
                    map (\<lambda>r. if rel_id r = rel_id inc then rel else r) (relationsSignal s)))"
    using u ne st ni rel nf
    by (auto simp: blockUser_def blockUser_teardown_def blockUser_establish_def
          relations_create_def request_def Let_def expand_relation_def relation_rethrow_def
          getRelationStatus_def[of "_\<lparr>relationsSignal := _\<rparr>"] after
        split: option.splits if_splits)
qed

text \<open>
  Claim C10 asks that \<^verbatim>\<open>blockUser\<close>, for a target who blocked the local user
  first, succeeds without \<^verbatim>\<open>AlreadyBlocked\<close>, creates a second, independent
  \<open>blocked\<close> edge from the local user to the target and leaves the target's
  \<open>blocked\<close> edge untouched, after which the local status is \<open>blocked\<close>
  with \<open>isInitiatedByMe = True\<close>. Bob blocked alice; alice blocks bob. The call
  succeeds, the backend holds both edges and the status is as claimed, but in
  alice's relation collection, where the precondition was read, bob's edge is
  gone: the new edge was written over it.
\<close>

theorem blockUser_overwrites_block_record:
  "getRelationStatus (client alice [edge ''r1'' ''U2'' ''U1'' blocked] []) ''U2'' =
     \<lparr>status_type = Rel blocked, isInitiatedByMe = False,
      relation = Some (edge ''r1'' ''U2'' ''U1'' blocked)\<rparr>
   \<and> blockUser (client alice [edge ''r1'' ''U2'' ''U1'' blocked] [])
       (server [edge ''r1'' ''U2'' ''U1'' blocked] []) ''U2'' =
     (Inr ((edge ''n'' ''U1'' ''U2'' blocked)
             \<lparr>rel_created := ''2024-06-01'', rel_updated := ''2024-06-01'',
              rel_expand := Some (Some alice, Some bob)\<rparr>),
      client alice
        [(edge ''n'' ''U1'' ''U2'' blocked)
           \<lparr>rel_created := ''2024-06-01'', rel_updated := ''2024-06-01'',
            rel_expand := Some (Some alice, Some bob)\<rparr>] [],
      (server [edge ''r1'' ''U2'' ''U1'' blocked,
               (edge ''n'' ''U1'' ''U2'' blocked)
                 \<lparr>rel_created := ''2024-06-01'', rel_updated := ''2024-06-01''\<rparr>] [])
        \<lparr>calls := 1\<rparr>)
   \<and> list_ex (\<lambda>r. from_user r = ''U2'' \<and> to_user r = ''U1'' \<and> rel_type r = blocked)
       (relations_col
          (snd (snd (blockUser (client alice [edge ''r1'' ''U2'' ''U1'' blocked] [])
                       (server [edge ''r1'' ''U2'' ''U1'' blocked] []) ''U2''))))
   \<and> \<not> list_ex (\<lambda>r. from_user r = ''U2'' \<and> to_user r = ''U1'')
       (relationsSignal
          (fst (snd (blockUser (client alice [edge ''r1'' ''U2'' ''U1'' blocked] [])
                       (server [edge ''r1'' ''U2'' ''U1'' blocked] []) ''U2''))))
   \<and> getRelationStatus
       (fst (snd (blockUser (client alice [edge ''r1'' ''U2'' ''U1'' blocked] [])
                    (server [edge ''r1'' ''U2'' ''U1'' blocked] []) ''U2'')))
       ''U2'' =
     \<lparr>status_type = Rel blocked, isInitiatedByMe = True,
      relation = Some ((edge ''n'' ''U1'' ''U2'' blocked)
             \<lparr>rel_created := ''2024-06-01'', rel_updated := ''2024-06-01'',
              rel_expand := Some (Some alice, Some bob)\<rparr>)\<rparr>"
  by (simp add: blockUser_def blockUser_teardown_def blockUser_establish_def areFriends_def
        getRelationStatus_def relations_create_def request_def expand_relation_def find_user_def
        client_def server_def alice_def bob_def edge_def)

section \<open>Replayed create events\<close>










section \<open>Get or create a conversation\<close>

lemma take_one_filter: "take (Suc 0) xs = [] \<longleftrightarrow> xs = []"
  by (cases xs) auto

lemma take_one_Cons: "take (Suc 0) xs = z # zs \<longleftrightarrow> (\<exists>ys. xs = z # ys) \<and> zs = []"
  by (cases xs) auto

lemma expand_conversation_users:
  "users_col pb' = users_col pb \<Longrightarrow> expand_conversation pb' = expand_conversation pb"
  by (rule ext) (simp add: expand_conversation_def find_user_def[abs_def])

lemma expand_conversation_calls [simp]:
  "expand_conversation (pb\<lparr>calls := n\<rparr>) = expand_conversation pb"
  by (rule expand_conversation_users) simp

lemma expand_conversation_again:
  "expand_conversation pb ((expand_conversation pb' c)\<lparr>conv_expand := None\<rparr>)
     = expand_conversation pb c"
  by (simp add: expand_conversation_def)

lemma getOrCreate_cases:
  assumes "getOrCreateConversation s pb other = (Inr c1, s1, pb1)"
  shows "\<exists>me. user s = Some me \<and> status_type (getRelationStatus s other) = Rel friend
     \<and> faults pb (calls pb) = None
     \<and> ((\<exists>x xs. filter (\<lambda>c. user_id me \<in> set (participants c) \<and> other \<in> set (participants c))
                    (conversations_col pb) = x # xs
            \<and> c1 = expand_conversation pb x \<and> s1 = s \<and> pb1 = pb\<lparr>calls := Suc (calls pb)\<rparr>)
        \<or> (filter (\<lambda>c. user_id me \<in> set (participants c) \<and> other \<in> set (participants c))
                    (conversations_col pb) = []
            \<and> faults pb (Suc (calls pb)) = None
            \<and> s1 = s\<lparr>conversationsSignal := c1 # conversationsSignal s\<rparr>
            \<and> participants c1 = [user_id me, other]
            \<and> c1 = expand_conversation pb (c1\<lparr>conv_expand := None\<rparr>)
            \<and> pb1 = pb\<lparr>calls := Suc (Suc (calls pb)),
                        conversations_col := conversations_col pb @ [c1\<lparr>conv_expand := None\<rparr>]\<rparr>))"
  using assms
  by (auto simp: getOrCreateConversation_def conversations_getList_def conversations_create_def
        request_def Let_def page_one expand_conversation_def find_user_def[abs_def]
        take_one_filter take_one_Cons
      split: option.splits if_splits list.splits)

lemma getRelationStatus_conversations [simp]:
  "getRelationStatus (s\<lparr>conversationsSignal := cs\<rparr>) = getRelationStatus s"
  by (rule ext) (simp add: getRelationStatus_def split: option.splits)

lemma getOrCreate_found:
  assumes "user s = Some me" "status_type (getRelationStatus s other) = Rel friend"
    and "faults pb (calls pb) = None"
    and "filter (\<lambda>c. user_id me \<in> set (participants c) \<and> other \<in> set (participants c))
           (conversations_col pb) = x # xs"
  shows "getOrCreateConversation s pb other =
           (Inr (expand_conversation pb x), s, pb\<lparr>calls := Suc (calls pb)\<rparr>)"
  using assms
  by (simp add: getOrCreateConversation_def conversations_getList_def request_def Let_def page_one)

lemma getOrCreate_created:
  assumes "user s = Some me" "status_type (getRelationStatus s other) = Rel friend"
    and "faults pb (calls pb) = None" "faults pb (Suc (calls pb)) = None"
    and "filter (\<lambda>c. user_id me \<in> set (participants c) \<and> other \<in> set (participants c))
           (conversations_col pb) = []"
    and "\<not> list_ex (\<lambda>x. conv_id x = new_ids pb (Suc (calls pb))) (conversations_col pb)"
  shows "\<exists>c1. getOrCreateConversation s pb other =
           (Inr c1, s\<lparr>conversationsSignal := c1 # conversationsSignal s\<rparr>,
            pb\<lparr>calls := Suc (Suc (calls pb)),
               conversations_col := conversations_col pb @ [c1\<lparr>conv_expand := None\<rparr>]\<rparr>)
          \<and> participants c1 = [user_id me, other]"
  using assms
  by (simp add: getOrCreateConversation_def conversations_getList_def conversations_create_def
        request_def Let_def page_one expand_conversation_def)

lemma getOrCreate_pair:
  assumes first: "getOrCreateConversation s pb other = (Inr c1, s1, pb1)"
  shows "\<exists>me x. user s = Some me \<and> status_type (getRelationStatus s other) = Rel friend
      \<and> user s1 = Some me \<and> status_type (getRelationStatus s1 other) = Rel friend
      \<and> users_col pb1 = users_col pb
      \<and> find (\<lambda>c. user_id me \<in> set (participants c) \<and> other \<in> set (participants c))
            (conversations_col pb1) = Some x
      \<and> c1 = expand_conversation pb x
      \<and> user_id me \<in> set (participants c1) \<and> other \<in> set (participants c1)
      \<and> ((find (\<lambda>c. user_id me \<in> set (participants c) \<and> other \<in> set (participants c))
              (conversations_col pb) = Some x
            \<and> conversations_col pb1 = conversations_col pb \<and> s1 = s)
         \<or> (find (\<lambda>c. user_id me \<in> set (participants c) \<and> other \<in> set (participants c))
              (conversations_col pb) = None
            \<and> participants c1 = [user_id me, other]
            \<and> conversations_col pb1 = conversations_col pb @ [x]
            \<and> s1 = s\<lparr>conversationsSignal := c1 # conversationsSignal s\<rparr>))"
proof -
  from getOrCreate_cases[OF first] obtain me where
    u: "user s = Some me" and fr: "status_type (getRelationStatus s other) = Rel friend"
    and c: "(\<exists>x xs. filter (\<lambda>c. user_id me \<in> set (participants c) \<and> other \<in> set (participants c))
                    (conversations_col pb) = x # xs
            \<and> c1 = expand_conversation pb x \<and> s1 = s \<and> pb1 = pb\<lparr>calls := Suc (calls pb)\<rparr>)
        \<or> (filter (\<lambda>c. user_id me \<in> set (participants c) \<and> other \<in> set (participants c))
                    (conversations_col pb) = []
            \<and> faults pb (Suc (calls pb)) = None
            \<and> s1 = s\<lparr>conversationsSignal := c1 # conversationsSignal s\<rparr>
            \<and> participants c1 = [user_id me, other]
            \<and> c1 = expand_conversation pb (c1\<lparr>conv_expand := None\<rparr>)
            \<and> pb1 = pb\<lparr>calls := Suc (Suc (calls pb)),
                        conversations_col := conversations_col pb @ [c1\<lparr>conv_expand := None\<rparr>]\<rparr>)"
    by blast
  let ?F = "\<lambda>c. user_id me \<in> set (participants c) \<and> other \<in> set (participants c)"
  from c show ?thesis
  proof (elim disjE exE conjE)
    fix x xs
    assume f: "filter ?F (conversations_col pb) = x # xs"
      and r: "c1 = expand_conversation pb x" "s1 = s" "pb1 = pb\<lparr>calls := Suc (calls pb)\<rparr>"
    have fx: "find ?F (conversations_col pb) = Some x" using f by (simp add: find_filter_hd)
    have px: "?F x" using f by (metis (mono_tags, lifting) filter_eq_ConsD)
    have "participants c1 = participants x" using r(1) by (simp add: expand_conversation_def)
    with u fr fx px r show ?thesis by auto
  next
    assume f: "filter ?F (conversations_col pb) = []"
      and r: "s1 = s\<lparr>conversationsSignal := c1 # conversationsSignal s\<rparr>"
        "participants c1 = [user_id me, other]"
        "c1 = expand_conversation pb (c1\<lparr>conv_expand := None\<rparr>)"
        "pb1 = pb\<lparr>calls := Suc (Suc (calls pb)),
                  conversations_col := conversations_col pb @ [c1\<lparr>conv_expand := None\<rparr>]\<rparr>"
    have fn: "find ?F (conversations_col pb) = None" using f by (simp add: find_filter_hd)
    have f1: "find ?F (conversations_col pb1) = Some (c1\<lparr>conv_expand := None\<rparr>)"
      using f r(2,4) by (simp add: find_filter_hd)
    show ?thesis
      using u fr fn f1 r(1,2,4) r(3)[symmetric]
      by (intro exI[of _ me] exI[of _ "c1\<lparr>conv_expand := None\<rparr>"]) simp
  qed
qed

text \<open>
  Claim C5. When \<^verbatim>\<open>getOrCreateConversation\<close> returns a conversation, the user is
  signed in with computed status \<open>friend\<close> toward the other user, and the
  result is the conversation of the pair: both users are among its participants,
  and it is the first stored conversation holding both once the call is over,
  with its participants expanded. It was either found (it already was that
  conversation, and nothing changed) or created (none held both users; the new
  record has exactly the two participants, is appended to the backend and is put
  at the front of the conversation signal). A second call in sequence on the
  states the first one left returns that same conversation, so the same
  identifier, and creates nothing. Both calls do return when the user is signed
  in, the status is \<open>friend\<close>, no request fails and the identifier the backend
  would assign is unused.
\<close>

theorem getOrCreateConversation_twice:
  "(getOrCreateConversation s pb other = (Inr c1, s1, pb1)
     \<longrightarrow> (\<exists>me x. user s = Some me \<and> status_type (getRelationStatus s other) = Rel friend
            \<and> find (\<lambda>c. user_id me \<in> set (participants c) \<and> other \<in> set (participants c))
                  (conversations_col pb1) = Some x
            \<and> c1 = expand_conversation pb x
            \<and> user_id me \<in> set (participants c1) \<and> other \<in> set (participants c1)
            \<and> ((find (\<lambda>c. user_id me \<in> set (participants c) \<and> other \<in> set (participants c))
                    (conversations_col pb) = Some x
                  \<and> conversations_col pb1 = conversations_col pb \<and> s1 = s)
               \<or> (find (\<lambda>c. user_id me \<in> set (participants c) \<and> other \<in> set (participants c))
                    (conversations_col pb) = None
                  \<and> participants c1 = [user_id me, other]
                  \<and> conversations_col pb1 = conversations_col pb @ [x]
                  \<and> s1 = s\<lparr>conversationsSignal := c1 # conversationsSignal s\<rparr>))))
   \<and> (getOrCreateConversation s pb other = (Inr c1, s1, pb1)
      \<and> getOrCreateConversation s1 pb1 other = (Inr c2, s2, pb2)
     \<longrightarrow> c2 = c1 \<and> conv_id c2 = conv_id c1
         \<and> conversations_col pb2 = conversations_col pb1 \<and> s2 = s1)
   \<and> (user s = Some me' \<and> status_type (getRelationStatus s other) = Rel friend
        \<and> (\<forall>k. faults pb k = None)
        \<and> \<not> list_ex (\<lambda>x. conv_id x = new_ids pb (Suc (calls pb))) (conversations_col pb)
     \<longrightarrow> (\<exists>c1 s1 pb1 c2 s2 pb2.
            getOrCreateConversation s pb other = (Inr c1, s1, pb1)
          \<and> getOrCreateConversation s1 pb1 other = (Inr c2, s2, pb2)))"
proof (intro conjI)
  show "getOrCreateConversation s pb other = (Inr c1, s1, pb1)
     \<longrightarrow> (\<exists>me x. user s = Some me \<and> status_type (getRelationStatus s other) = Rel friend
            \<and> find (\<lambda>c. user_id me \<in> set (participants c) \<and> other \<in> set (participants c))
                  (conversations_col pb1) = Some x
            \<and> c1 = expand_conversation pb x
            \<and> user_id me \<in> set (participants c1) \<and> other \<in> set (participants c1)
            \<and> ((find (\<lambda>c. user_id me \<in> set (participants c) \<and> other \<in> set (participants c))
                    (conversations_col pb) = Some x
                  \<and> conversations_col pb1 = conversations_col pb \<and> s1 = s)
               \<or> (find (\<lambda>c. user_id me \<in> set (participants c) \<and> other \<in> set (participants c))
                    (conversations_col pb) = None
                  \<and> participants c1 = [user_id me, other]
                  \<and> conversations_col pb1 = conversations_col pb @ [x]
                  \<and> s1 = s\<lparr>conversationsSignal := c1 # conversationsSignal s\<rparr>)))"
  proof
    assume "getOrCreateConversation s pb other = (Inr c1, s1, pb1)"
    from getOrCreate_pair[OF this] show "\<exists>me x. user s = Some me
            \<and> status_type (getRelationStatus s other) = Rel friend
            \<and> find (\<lambda>c. user_id me \<in> set (participants c) \<and> other \<in> set (participants c))
                  (conversations_col pb1) = Some x
            \<and> c1 = expand_conversation pb x
            \<and> user_id me \<in> set (participants c1) \<and> other \<in> set (participants c1)
            \<and> ((find (\<lambda>c. user_id me \<in> set (participants c) \<and> other \<in> set (participants c))
                    (conversations_col pb) = Some x
                  \<and> conversations_col pb1 = conversations_col pb \<and> s1 = s)
               \<or> (find (\<lambda>c. user_id me \<in> set (participants c) \<and> other \<in> set (participants c))
                    (conversations_col pb) = None
                  \<and> participants c1 = [user_id me, other]
                  \<and> conversations_col pb1 = conversations_col pb @ [x]
                  \<and> s1 = s\<lparr>conversationsSignal := c1 # conversationsSignal s\<rparr>))"
      by blast
  qed
next
  show "getOrCreateConversation s pb other = (Inr c1, s1, pb1)
      \<and> getOrCreateConversation s1 pb1 other = (Inr c2, s2, pb2)
     \<longrightarrow> c2 = c1 \<and> conv_id c2 = conv_id c1
         \<and> conversations_col pb2 = conversations_col pb1 \<and> s2 = s1"
  proof
    assume both: "getOrCreateConversation s pb other = (Inr c1, s1, pb1)
      \<and> getOrCreateConversation s1 pb1 other = (Inr c2, s2, pb2)"
    then have first: "getOrCreateConversation s pb other = (Inr c1, s1, pb1)"
      and second: "getOrCreateConversation s1 pb1 other = (Inr c2, s2, pb2)" by auto
    from getOrCreate_pair[OF first] obtain me x where
      u1: "user s1 = Some me" and us: "users_col pb1 = users_col pb"
      and fx: "find (\<lambda>c. user_id me \<in> set (participants c) \<and> other \<in> set (participants c))
            (conversations_col pb1) = Some x"
      and c1: "c1 = expand_conversation pb x"
      by blast
    from getOrCreate_pair[OF second] u1 fx obtain y where
      fy: "find (\<lambda>c. user_id me \<in> set (participants c) \<and> other \<in> set (participants c))
            (conversations_col pb1) = Some y"
      and c2: "c2 = expand_conversation pb1 y"
      and same: "conversations_col pb2 = conversations_col pb1 \<and> s2 = s1"
      by auto
    from fx fy have "y = x" by simp
    with c1 c2 expand_conversation_users[OF us] have "c2 = c1" by simp
    with same show "c2 = c1 \<and> conv_id c2 = conv_id c1
         \<and> conversations_col pb2 = conversations_col pb1 \<and> s2 = s1" by simp
  qed
next
  show "user s = Some me' \<and> status_type (getRelationStatus s other) = Rel friend
        \<and> (\<forall>k. faults pb k = None)
        \<and> \<not> list_ex (\<lambda>x. conv_id x = new_ids pb (Suc (calls pb))) (conversations_col pb)
     \<longrightarrow> (\<exists>c1 s1 pb1 c2 s2 pb2.
            getOrCreateConversation s pb other = (Inr c1, s1, pb1)
          \<and> getOrCreateConversation s1 pb1 other = (Inr c2, s2, pb2))"
  proof
    assume h: "user s = Some me' \<and> status_type (getRelationStatus s other) = Rel friend
        \<and> (\<forall>k. faults pb k = None)
        \<and> \<not> list_ex (\<lambda>x. conv_id x = new_ids pb (Suc (calls pb))) (conversations_col pb)"
    let ?F = "\<lambda>c. user_id me' \<in> set (participants c) \<and> other \<in> set (participants c)"
    show "\<exists>c1 s1 pb1 c2 s2 pb2.
            getOrCreateConversation s pb other = (Inr c1, s1, pb1)
          \<and> getOrCreateConversation s1 pb1 other = (Inr c2, s2, pb2)"
    proof (cases "filter ?F (conversations_col pb)")
      case Nil
      from getOrCreate_created[of s me' other pb] h Nil obtain c1 where
        first: "getOrCreateConversation s pb other =
             (Inr c1, s\<lparr>conversationsSignal := c1 # conversationsSignal s\<rparr>,
              pb\<lparr>calls := Suc (Suc (calls pb)),
                 conversations_col := conversations_col pb @ [c1\<lparr>conv_expand := None\<rparr>]\<rparr>)"
        and ps: "participants c1 = [user_id me', other]"
        by auto
      let ?s1 = "s\<lparr>conversationsSignal := c1 # conversationsSignal s\<rparr>"
      let ?pb1 = "pb\<lparr>calls := Suc (Suc (calls pb)),
                 conversations_col := conversations_col pb @ [c1\<lparr>conv_expand := None\<rparr>]\<rparr>"
      have "filter ?F (conversations_col ?pb1) = [c1\<lparr>conv_expand := None\<rparr>]"
        using Nil ps by simp
      from getOrCreate_found[of ?s1 me' other ?pb1, OF _ _ _ this] h
      show ?thesis using first by auto
    next
      case (Cons x xs)
      from getOrCreate_found[of s me' other pb x xs] h Cons
      have first: "getOrCreateConversation s pb other =
             (Inr (expand_conversation pb x), s, pb\<lparr>calls := Suc (calls pb)\<rparr>)" by auto
      have "filter ?F (conversations_col (pb\<lparr>calls := Suc (calls pb)\<rparr>)) = x # xs"
        using Cons by simp
      from getOrCreate_found[of s me' other "pb\<lparr>calls := Suc (calls pb)\<rparr>", OF _ _ _ this] h
      show ?thesis using first by auto
    qed
  qed
qed

theorem getOrCreateConversation_twice_witness:
  "getOrCreateConversation friends_client friends_server ''U2'' =
     (Inr ((chat ''nn'' [''U1'', ''U2''])
             \<lparr>conv_created := ''2024-06-01'', conv_updated := ''2024-06-01'',
              conv_expand := Some [alice, bob]\<rparr>),
      friends_client\<lparr>conversationsSignal :=
        [(chat ''nn'' [''U1'', ''U2''])
             \<lparr>conv_created := ''2024-06-01'', conv_updated := ''2024-06-01'',
              conv_expand := Some [alice, bob]\<rparr>]\<rparr>,
      friends_server\<lparr>calls := 2, conversations_col :=
        [(chat ''nn'' [''U1'', ''U2''])
             \<lparr>conv_created := ''2024-06-01'', conv_updated := ''2024-06-01''\<rparr>]\<rparr>)
   \<and> getOrCreateConversation
       (friends_client\<lparr>conversationsSignal :=
        [(chat ''nn'' [''U1'', ''U2''])
             \<lparr>conv_created := ''2024-06-01'', conv_updated := ''2024-06-01'',
              conv_expand := Some [alice, bob]\<rparr>]\<rparr>)
       (friends_server\<lparr>calls := 2, conversations_col :=
        [(chat ''nn'' [''U1'', ''U2''])
             \<lparr>conv_created := ''2024-06-01'', conv_updated := ''2024-06-01''\<rparr>]\<rparr>) ''U2'' =
     (Inr ((chat ''nn'' [''U1'', ''U2''])
             \<lparr>conv_created := ''2024-06-01'', conv_updated := ''2024-06-01'',
              conv_expand := Some [alice, bob]\<rparr>),
      friends_client\<lparr>conversationsSignal :=
        [(chat ''nn'' [''U1'', ''U2''])
             \<lparr>conv_created := ''2024-06-01'', conv_updated := ''2024-06-01'',
              conv_expand := Some [alice, bob]\<rparr>]\<rparr>,
      friends_server\<lparr>calls := 3, conversations_col :=
        [(chat ''nn'' [''U1'', ''U2''])
             \<lparr>conv_created := ''2024-06-01'', conv_updated := ''2024-06-01''\<rparr>]\<rparr>)"
proof -
  let ?c = "(chat ''nn'' [''U1'', ''U2''])
             \<lparr>conv_created := ''2024-06-01'', conv_updated := ''2024-06-01'',
              conv_expand := Some [alice, bob]\<rparr>"
  let ?s1 = "friends_client\<lparr>conversationsSignal := [?c]\<rparr>"
  let ?pb1 = "friends_server\<lparr>calls := 2, conversations_col := [?c\<lparr>conv_expand := None\<rparr>]\<rparr>"
  have first: "getOrCreateConversation friends_client friends_server ''U2'' = (Inr ?c, ?s1, ?pb1)"
    by (simp add: getOrCreateConversation_def getRelationStatus_def conversations_getList_def
        conversations_create_def request_def page_one expand_conversation_def find_user_def
        List.map_filter_def friends_client_def friends_server_def client_def server_def
        alice_def bob_def edge_def chat_def)
  have second: "getOrCreateConversation ?s1 ?pb1 ''U2'' = (Inr ?c, ?s1, ?pb1\<lparr>calls := 3\<rparr>)"
    by (simp add: getOrCreateConversation_def getRelationStatus_def conversations_getList_def
        request_def page_one expand_conversation_def find_user_def
        List.map_filter_def friends_client_def friends_server_def client_def server_def
        alice_def bob_def edge_def chat_def)
  from getOrCreateConversation_twice
         [of friends_client friends_server "''U2''" ?c ?s1 ?pb1 ?c ?s1 "?pb1\<lparr>calls := 3\<rparr>" alice]
       first second
  show ?thesis by (simp add: chat_def)
qed

section \<open>Sending to a blocked participant\<close>

text \<open>
  When the computed status with the other participant is \<open>blocked\<close>, in either
  direction, \<^verbatim>\<open>sendMessage\<close> of a signed-in user with a non-blank text throws one
  of the two blocking errors after the conversation lookup and before any create:
  the backend has served one request and holds what it held.
\<close>

lemma sendMessage_blocked_status:
  assumes "user s = Some me" "trim txt \<noteq> []" "faults pb (calls pb) = None"
    and "find (\<lambda>c. conv_id c = cid) (conversations_col pb) = Some c"
    and "find (\<lambda>i. i \<noteq> user_id me) (participants c) = Some other" "other \<noteq> []"
    and "isBlockedByMe s other \<or> isBlockedBy s other"
  shows "\<exists>msg. sendMessage s pb now cid txt =
           (Inl (Error msg None), s\<lparr>chatErrorSignal := Some msg\<rparr>, pb\<lparr>calls := Suc (calls pb)\<rparr>)
         \<and> (msg = blocked_by_me_message \<or> msg = blocked_by_them_message)"
  using assms
  by (auto simp: sendMessage_def checkBlockStatus_def getConversationById_def
        conversations_getOne_def request_def Let_def expand_conversation_def chat_rethrow_def
        handleError_def extractErrorMessage_def blocked_by_me_message_def
        blocked_by_them_message_def)

text \<open>
  Claim C8 requires \<^verbatim>\<open>sendMessage\<close> to throw whenever the other participant has
  a blocked edge toward the local user. The check reads the computed status, which
  answers from the outgoing edge first: alice still holds her \<open>friend\<close> edge to
  bob, bob's \<open>blocked\<close> edge toward alice is in her relation collection, and her
  message to their conversation is created.
\<close>

theorem sendMessage_shadowed_block:
  "list_ex (\<lambda>r. from_user r = ''U2'' \<and> to_user r = ''U1'' \<and> rel_type r = blocked)
     (relationsSignal
        (client alice [edge ''r1'' ''U1'' ''U2'' friend, edge ''r2'' ''U2'' ''U1'' blocked]
           [chat ''c1'' [''U1'', ''U2'']]))
   \<and> sendMessage
         (client alice [edge ''r1'' ''U1'' ''U2'' friend, edge ''r2'' ''U2'' ''U1'' blocked]
            [chat ''c1'' [''U1'', ''U2'']])
         (server [edge ''r1'' ''U1'' ''U2'' friend, edge ''r2'' ''U2'' ''U1'' blocked]
            [chat ''c1'' [''U1'', ''U2'']])
         ''2024-06-02'' ''c1'' ''hi''
     = (Inr ((text_message ''nn'' ''U1'' ''c1'' ''hi'')
               \<lparr>collectionId := Some ''messages'', collectionName := Some ''messages'',
                msg_created := ''2024-06-01'', msg_updated := ''2024-06-01''\<rparr>),
        client alice [edge ''r1'' ''U1'' ''U2'' friend, edge ''r2'' ''U2'' ''U1'' blocked]
          [chat ''c1'' [''U1'', ''U2'']],
        (server [edge ''r1'' ''U1'' ''U2'' friend, edge ''r2'' ''U2'' ''U1'' blocked]
           [(chat ''c1'' [''U1'', ''U2''])\<lparr>conv_updated := ''2024-06-02''\<rparr>])
          \<lparr>messages_col :=
             [(text_message ''nn'' ''U1'' ''c1'' ''hi'')
               \<lparr>collectionId := Some ''messages'', collectionName := Some ''messages'',
                msg_created := ''2024-06-01'', msg_updated := ''2024-06-01''\<rparr>],
           calls := 3\<rparr>)"
  by (simp add: Let_def sendMessage_def checkBlockStatus_def getConversationById_def trim_def strip.simps white_space_def
        conversations_getOne_def conversations_update_def messages_create_def request_def
        expand_conversation_def find_user_def List.map_filter_def
        isBlockedByMe_def isBlockedBy_def getRelationStatus_def
        client_def server_def alice_def bob_def edge_def chat_def text_message_def)

section \<open>Visibility of conversations\<close>

lemma friendship_query:
  "faults pb (calls pb) = None \<Longrightarrow>
     relations_getList (Suc 0) (Suc 0) F (\<lambda>xs. xs) False pb =
       (Inr (take (Suc 0) (filter F (relations_col pb))), pb\<lparr>calls := Suc (calls pb)\<rparr>)"
  by (simp add: relations_getList_def request_def Let_def page_one expand_relation_def[abs_def])

lemma take_one_nonempty: "take (Suc 0) xs = [] \<longleftrightarrow> xs = []"
  by (cases xs) auto

lemma min_length_one: "min (length xs) (Suc 0) = 0 \<longleftrightarrow> xs = []"
  by (cases xs) auto

lemma list_ex_filter: "list_ex P xs \<longleftrightarrow> filter P xs \<noteq> []"
  by (induction xs) auto

lemma filterConversations_kept:
  "user s = Some me \<Longrightarrow> \<forall>k. faults pb k = None \<Longrightarrow>
     fst (filterConversations s me items pb) = filter (shown s (relations_col pb)) items"
proof (induction items arbitrary: pb)
  case Nil
  show ?case by simp
next
  case (Cons c items)
  let ?pb1 = "pb\<lparr>calls := Suc (calls pb)\<rparr>"
  have f1: "\<forall>k. faults ?pb1 k = None" using Cons.prems by simp
  have ih0: "fst (filterConversations s me items pb) = filter (shown s (relations_col pb)) items"
    using Cons.IH[OF Cons.prems] .
  have ih1: "fst (filterConversations s me items ?pb1) = filter (shown s (relations_col pb)) items"
    using Cons.IH[OF Cons.prems(1) f1] by simp
  have q: "\<And>F. relations_getList (Suc 0) (Suc 0) F (\<lambda>xs. xs) False pb =
       (Inr (take (Suc 0) (filter F (relations_col pb))), ?pb1)"
    using Cons.prems by (intro friendship_query) simp
  have head: "shown s (relations_col pb) c =
      (case getOtherParticipant s c of
         None \<Rightarrow> False
       | Some p \<Rightarrow> \<not> isBlockedByMe s (user_id p) \<and> \<not> isBlockedBy s (user_id p)
           \<and> filter (friendship_filter (user_id me) (user_id p)) (relations_col pb) \<noteq> [])"
    using Cons.prems(1) by (simp add: shown_def list_ex_filter split: option.splits)
  show ?case
    using ih0 ih1
    by (cases "filterConversations s me items ?pb1")
       (auto simp: q head take_one_nonempty split: option.splits)
qed

lemma shown_flags [simp]:
  "shown (s\<lparr>conversationLoadingSignal := a, conversationErrorSignal := b\<rparr>) = shown s"
  by (intro ext)
     (simp add: shown_def getOtherParticipant_def isBlockedByMe_def isBlockedBy_def
        getRelationStatus_def split: option.splits)


lemma fetchConversations_kept:
  assumes "user s = Some me" "\<forall>k. faults pb k = None"
  shows "conversationsSignal (fst (fetchConversations s pb)) =
      filter (shown s (relations_col pb))
        (map (expand_conversation pb)
           (page_of 1 50 (sort_desc conv_updated
              (filter (\<lambda>c. user_id me \<in> set (participants c)) (conversations_col pb)))))"
proof -
  let ?s1 = "s\<lparr>conversationLoadingSignal := True, conversationErrorSignal := None\<rparr>"
  let ?pb1 = "pb\<lparr>calls := Suc (calls pb)\<rparr>"
  let ?items = "map (expand_conversation pb)
           (page_of 1 50 (sort_desc conv_updated
              (filter (\<lambda>c. user_id me \<in> set (participants c)) (conversations_col pb))))"
  have "fst (filterConversations ?s1 me ?items ?pb1) = filter (shown ?s1 (relations_col ?pb1)) ?items"
    using assms by (intro filterConversations_kept) simp_all
  then have k: "fst (filterConversations ?s1 me ?items ?pb1) = filter (shown s (relations_col pb)) ?items"
    by simp
  show ?thesis
    using assms k
    by (cases "filterConversations ?s1 me ?items ?pb1")
       (simp add: fetchConversations_def conversations_getList_def request_def Let_def)
qed

lemma handleConversation_present:
  assumes "user s = Some me" "\<forall>k. faults pb k = None"
    and "find (\<lambda>c. conv_id c = cid) (conversations_col pb) = Some c"
  shows "list_ex (\<lambda>x. conv_id x = cid)
           (conversationsSignal (fst (handleConversationCreateOrUpdate s pb cid)))
         \<longleftrightarrow> shown s (relations_col pb) (expand_conversation pb c)"
proof -
  let ?pb1 = "pb\<lparr>calls := Suc (calls pb)\<rparr>"
  have cid: "conv_id c = cid" using assms(3) by (auto simp: find_Some_iff)
  have one: "conversations_getOne cid pb = (Inr (expand_conversation pb c), ?pb1)"
    using assms by (simp add: conversations_getOne_def request_def Let_def)
  have eid: "conv_id (expand_conversation pb c) = cid"
    using cid by (simp add: expand_conversation_def)
  have q: "\<And>F. relations_getList (Suc 0) (Suc 0) F (\<lambda>xs. xs) False ?pb1 =
       (Inr (take (Suc 0) (filter F (relations_col pb))), ?pb1\<lparr>calls := Suc (calls ?pb1)\<rparr>)"
    using assms(2) friendship_query[of ?pb1] by simp
  have rm: "\<And>xs. \<not> list_ex (\<lambda>x. conv_id x = cid) (filter (\<lambda>x. conv_id x \<noteq> cid) xs)"
    by (simp add: list_ex_iff)
  have rp: "\<And>xs y. conv_id y = cid \<Longrightarrow> list_ex (\<lambda>x. conv_id x = cid) xs \<Longrightarrow>
      list_ex (\<lambda>x. conv_id x = cid) (map (\<lambda>x. if conv_id x = cid then y else x) xs)"
    by (auto simp: list_ex_iff)
  have head: "shown s (relations_col pb) (expand_conversation pb c) =
      (case getOtherParticipant s (expand_conversation pb c) of
         None \<Rightarrow> False
       | Some p \<Rightarrow> \<not> isBlockedByMe s (user_id p) \<and> \<not> isBlockedBy s (user_id p)
           \<and> filter (friendship_filter (user_id me) (user_id p)) (relations_col pb) \<noteq> [])"
    using assms(1) by (simp add: shown_def list_ex_filter split: option.splits)
  show ?thesis
    using assms(1) eid rm rp
    by (auto simp: handleConversationCreateOrUpdate_def one q head take_one_nonempty
               min_length_one Let_def
             split: option.splits)
qed

lemma blocked_status_edges:
  assumes "user s = Some me" "blocks_unshadowed s"
  shows "(isBlockedByMe s p \<or> isBlockedBy s p)
         \<longleftrightarrow> list_ex (blocked_between (user_id me) p) (relationsSignal s)"
proof
  assume "isBlockedByMe s p \<or> isBlockedBy s p"
  then have st: "status_type (getRelationStatus s p) = Rel blocked"
    by (auto simp: isBlockedByMe_def isBlockedBy_def Let_def)
  then obtain r where "r \<in> set (relationsSignal s)" "blocked_between (user_id me) p r"
    using assms(1)
    by (auto simp: getRelationStatus_def blocked_between_def find_Some_iff
             split: option.splits if_splits) (metis nth_mem)+
  then show "list_ex (blocked_between (user_id me) p) (relationsSignal s)"
    by (auto simp: list_ex_iff)
next
  assume "list_ex (blocked_between (user_id me) p) (relationsSignal s)"
  then obtain r where r: "r \<in> set (relationsSignal s)" "blocked_between (user_id me) p r"
    by (auto simp: list_ex_iff)
  with assms have "status_type (getRelationStatus s p) = Rel blocked"
    by (auto simp: blocks_unshadowed_def list_all_iff blocked_between_def)
  then show "isBlockedByMe s p \<or> isBlockedBy s p"
    by (auto simp: isBlockedByMe_def isBlockedBy_def Let_def)
qed

lemma shown_eligible:
  assumes "user s = Some me" "blocks_unshadowed s"
  shows "shown s stored c = eligible s stored c"
  using assms blocked_status_edges[OF assms]
  by (auto simp: shown_def eligible_def split: option.splits)


text \<open>
  Claim C1, as amended. For a signed-in user whose relation collection shadows no
  \<open>blocked\<close> edge, and a backend that fails no request, the collection after
  \<^verbatim>\<open>fetchConversations\<close> is the fetched page (the first 50 of the user's
  conversations by recency, participants expanded) restricted to the eligible
  conversations; and after a create/update event for a stored conversation, that
  conversation is present exactly when it is eligible. Eligible means: the other
  participant resolves, the relation collection holds no \<open>blocked\<close> edge between
  the two in either direction, and the backend holds a \<open>friend\<close> edge between
  them in at least one direction. One direction is enough.
\<close>

theorem conversation_index_eligibility:
  "user s = Some me \<and> blocks_unshadowed s \<and> (\<forall>k. faults pb k = None) \<longrightarrow>
     conversationsSignal (fst (fetchConversations s pb)) =
       filter (eligible s (relations_col pb))
         (map (expand_conversation pb)
            (page_of 1 50 (sort_desc conv_updated
               (filter (\<lambda>c. user_id me \<in> set (participants c)) (conversations_col pb)))))
     \<and> (\<forall>c. find (\<lambda>c. conv_id c = cid) (conversations_col pb) = Some c \<longrightarrow>
           (list_ex (\<lambda>x. conv_id x = cid)
              (conversationsSignal (fst (handleConversationCreateOrUpdate s pb cid)))
            \<longleftrightarrow> eligible s (relations_col pb) (expand_conversation pb c)))"
proof (intro impI, elim conjE)
  assume u: "user s = Some me" and b: "blocks_unshadowed s" and f: "\<forall>k. faults pb k = None"
  have eq: "shown s (relations_col pb) = eligible s (relations_col pb)"
    using shown_eligible[OF u b] by (intro ext)
  show "conversationsSignal (fst (fetchConversations s pb)) =
       filter (eligible s (relations_col pb))
         (map (expand_conversation pb)
            (page_of 1 50 (sort_desc conv_updated
               (filter (\<lambda>c. user_id me \<in> set (participants c)) (conversations_col pb)))))
     \<and> (\<forall>c. find (\<lambda>c. conv_id c = cid) (conversations_col pb) = Some c \<longrightarrow>
           (list_ex (\<lambda>x. conv_id x = cid)
              (conversationsSignal (fst (handleConversationCreateOrUpdate s pb cid)))
            \<longleftrightarrow> eligible s (relations_col pb) (expand_conversation pb c)))"
    using fetchConversations_kept[OF u f] handleConversation_present[OF u f]
    unfolding eq by blast
qed

theorem conversation_index_eligibility_witness:
  "conversationsSignal
       (fst (fetchConversations friends_client
               (friends_server\<lparr>conversations_col := [chat ''c1'' [''U1'', ''U2'']]\<rparr>)))
     = [(chat ''c1'' [''U1'', ''U2''])\<lparr>conv_expand := Some [alice, bob]\<rparr>]
   \<and> list_ex (\<lambda>x. conv_id x = ''c1'')
       (conversationsSignal
          (fst (handleConversationCreateOrUpdate friends_client
                  (friends_server\<lparr>conversations_col := [chat ''c1'' [''U1'', ''U2'']]\<rparr>) ''c1'')))
   \<and> eligible friends_client (relations_col friends_server)
         ((chat ''c1'' [''U1'', ''U2''])\<lparr>conv_expand := Some [alice, bob]\<rparr>)
   \<and> blocks_unshadowed friends_client"
proof -
  let ?pb = "friends_server\<lparr>conversations_col := [chat ''c1'' [''U1'', ''U2'']]\<rparr>"
  have sh: "eligible friends_client (relations_col friends_server)
         ((chat ''c1'' [''U1'', ''U2''])\<lparr>conv_expand := Some [alice, bob]\<rparr>)"
    by (simp add: eligible_def getOtherParticipant_def blocked_between_def
          friendship_filter_def friends_client_def friends_server_def
          client_def server_def alice_def bob_def edge_def chat_def)
  have ex: "expand_conversation ?pb (chat ''c1'' [''U1'', ''U2''])
              = (chat ''c1'' [''U1'', ''U2''])\<lparr>conv_expand := Some [alice, bob]\<rparr>"
    by (simp add: expand_conversation_def find_user_def List.map_filter_def friends_server_def
          server_def alice_def bob_def chat_def)
  have pg: "page_of 1 50 (sort_desc conv_updated
               (filter (\<lambda>c. user_id alice \<in> set (participants c)) (conversations_col ?pb)))
            = [chat ''c1'' [''U1'', ''U2'']]"
    by (simp add: page_of_def sort_desc_def friends_server_def server_def alice_def chat_def)
  have bu: "blocks_unshadowed friends_client"
    by (simp add: blocks_unshadowed_def friends_client_def client_def edge_def)
  have hyp: "user friends_client = Some alice \<and> blocks_unshadowed friends_client
               \<and> (\<forall>k. faults ?pb k = None)"
    using bu by (simp add: friends_client_def friends_server_def client_def server_def)
  have fd: "find (\<lambda>c. conv_id c = ''c1'') (conversations_col ?pb) = Some (chat ''c1'' [''U1'', ''U2''])"
    by (simp add: chat_def)
  have rc: "relations_col ?pb = relations_col friends_server" by simp
  from conversation_index_eligibility[of friends_client alice ?pb "''c1''"] hyp fd
  show ?thesis
    unfolding pg rc by (simp add: ex sh bu)
qed

text \<open>
  The claim as stated asks for both directional \<open>friend\<close> edges. With the single
  edge from alice to bob (an accept that wrote only its first record), their
  conversation is in alice's index after \<^verbatim>\<open>fetchConversations\<close>.
\<close>

theorem conversation_index_one_direction_counterexample:
  "conversationsSignal
       (fst (fetchConversations (client alice [edge ''r1'' ''U1'' ''U2'' friend] [])
               (server [edge ''r1'' ''U1'' ''U2'' friend] [chat ''c1'' [''U1'', ''U2'']])))
     = [(chat ''c1'' [''U1'', ''U2''])\<lparr>conv_expand := Some [alice, bob]\<rparr>]
   \<and> \<not> list_ex (\<lambda>r. from_user r = ''U2'' \<and> to_user r = ''U1'' \<and> rel_type r = friend)
         (relations_col (server [edge ''r1'' ''U1'' ''U2'' friend] [chat ''c1'' [''U1'', ''U2'']]))
   \<and> \<not> list_ex (\<lambda>r. from_user r = ''U2'' \<and> to_user r = ''U1'' \<and> rel_type r = friend)
         (relationsSignal (client alice [edge ''r1'' ''U1'' ''U2'' friend] []))"
  by (simp add: fetchConversations_def conversations_getList_def relations_getList_def request_def
        page_of_def sort_desc_def expand_conversation_def expand_relation_def find_user_def
        List.map_filter_def getOtherParticipant_def isBlockedByMe_def isBlockedBy_def
        getRelationStatus_def friendship_filter_def
        client_def server_def alice_def bob_def edge_def chat_def)

section \<open>Blocking a friend\<close>

lemma relations_delete_cases:
  "relations_delete rid pb = (res, pb1) \<Longrightarrow>
     (\<exists>e. res = Inl e \<and> relations_col pb1 = relations_col pb)
     \<or> (res = Inr () \<and> relations_col pb1 = filter (\<lambda>r. rel_id r \<noteq> rid) (relations_col pb))"
  by (auto simp: relations_delete_def request_def Let_def split: option.splits if_splits)

lemma friends_status:
  assumes "user s = Some me"
    and "filter (\<lambda>r. from_user r = user_id me \<and> to_user r = t) (relationsSignal s) = [out]"
    and "rel_type out = friend"
  shows "getRelationStatus s t =
           \<lparr>status_type = Rel friend, isInitiatedByMe = True, relation = Some out\<rparr>"
  using assms by (simp add: getRelationStatus_def find_filter_hd)

lemma no_edges_status:
  assumes "user s = Some me"
    and "filter (\<lambda>r. from_user r = user_id me \<and> to_user r = t) (relationsSignal s) = []"
    and "filter (\<lambda>r. from_user r = t \<and> to_user r = user_id me) (relationsSignal s) = []"
  shows "getRelationStatus s t =
           \<lparr>status_type = no_relation, isInitiatedByMe = False, relation = None\<rparr>"
  using assms by (simp add: getRelationStatus_def find_filter_hd)

lemma filter_filter_single:
  assumes "filter P xs = [x]" "\<not> Q x"
  shows "filter P (filter Q xs) = []"
proof -
  have "filter P (filter Q xs) = filter Q (filter P xs)"
    by (induction xs) auto
  with assms show ?thesis by simp
qed

lemma teardown_cases:
  assumes u: "user s = Some me"
    and o: "filter (\<lambda>r. from_user r = user_id me \<and> to_user r = t) (relationsSignal s) = [out]"
    and i: "filter (\<lambda>r. from_user r = t \<and> to_user r = user_id me) (relationsSignal s) = [inc]"
    and ty: "rel_type out = friend" "rel_type inc = friend"
    and run: "blockUser_teardown s pb t = (res, s1, pb1)"
  shows "user s1 = Some me
     \<and> ((\<exists>e. res = Inl e \<and> relationsSignal s1 = relationsSignal s)
        \<or> (res = Inr ()
            \<and> relationsSignal s1 =
                filter (\<lambda>r. \<not> ((rel_id r = rel_id out \<or> rel_id r = rel_id inc) \<and> rel_type r = friend))
                  (relationsSignal s)
            \<and> relations_col pb1 =
                filter (\<lambda>r. rel_id r \<noteq> rel_id inc)
                  (filter (\<lambda>r. rel_id r \<noteq> rel_id out) (relations_col pb))))"
proof -
  have st: "getRelationStatus s t =
           \<lparr>status_type = Rel friend, isInitiatedByMe = True, relation = Some out\<rparr>"
    using friends_status[OF u o ty(1)] .
  have rec: "find (\<lambda>r. from_user r = t \<and> to_user r = user_id me \<and> rel_type r = friend)
               (relationsSignal s) = Some inc"
  proof -
    have "filter (\<lambda>r. from_user r = t \<and> to_user r = user_id me \<and> rel_type r = friend)
               (relationsSignal s)
          = filter (\<lambda>r. rel_type r = friend)
              (filter (\<lambda>r. from_user r = t \<and> to_user r = user_id me) (relationsSignal s))"
      by (induction "relationsSignal s") auto
    then show ?thesis using i ty(2) by (simp add: find_filter_hd)
  qed
  obtain r1 p1 where d1: "relations_delete (rel_id out) pb = (r1, p1)" by fastforce
  obtain r2 p2 where d2: "relations_delete (rel_id inc) p1 = (r2, p2)" by fastforce
  from relations_delete_cases[OF d1] relations_delete_cases[OF d2] run
  show ?thesis
    using u st rec d1 d2
    by (auto simp: blockUser_teardown_def areFriends_def removeFriend_def Let_def
          relation_rethrow_def)
qed


lemma establish_cases:
  assumes u: "user s1 = Some me"
    and o: "filter (\<lambda>r. from_user r = user_id me \<and> to_user r = t) (relationsSignal s1) = []"
    and i: "filter (\<lambda>r. from_user r = t \<and> to_user r = user_id me) (relationsSignal s1) = []"
    and run: "blockUser_establish me s1 pb1 t = (res, s2, pb2)"
  shows "(\<exists>e. res = Inl e \<and> relationsSignal s2 = relationsSignal s1)
     \<or> (\<exists>rel. res = Inr rel \<and> relationsSignal s2 = relationsSignal s1 @ [rel]
          \<and> from_user rel = user_id me \<and> to_user rel = t \<and> rel_type rel = blocked
          \<and> relations_col pb2 = relations_col pb1 @ [rel\<lparr>rel_expand := None\<rparr>])"
  using run no_edges_status[OF u o i]
  by (auto simp: blockUser_establish_def relations_create_def request_def Let_def
        expand_relation_def split: option.splits if_splits)

lemma between_split:
  "list_ex (friendship_filter me t) rels \<longleftrightarrow>
     list_ex (\<lambda>r. rel_type r = friend) (filter (\<lambda>r. from_user r = me \<and> to_user r = t) rels)
     \<or> list_ex (\<lambda>r. rel_type r = friend) (filter (\<lambda>r. from_user r = t \<and> to_user r = me) rels)"
  "list_ex (blocked_between me t) rels \<longleftrightarrow>
     list_ex (\<lambda>r. rel_type r = blocked) (filter (\<lambda>r. from_user r = me \<and> to_user r = t) rels)
     \<or> list_ex (\<lambda>r. rel_type r = blocked) (filter (\<lambda>r. from_user r = t \<and> to_user r = me) rels)"
  by (auto simp: list_ex_iff friendship_filter_def blocked_between_def)

text \<open>
  Claim C4. The local user and the target are mutual friends: the relation
  collection holds exactly one edge in each direction between them, both of kind
  \<open>friend\<close>. Then no value the relation signal takes while \<^verbatim>\<open>blockUser\<close> runs
  holds a \<open>friend\<close> edge and a \<open>blocked\<close> edge between the two at once,
  whatever fails. When \<^verbatim>\<open>blockUser\<close> returns a relation, the tear-down step
  completed first: after it neither the relation signal nor the backend holds a
  friendship record of the pair, and only then the establishing step created the
  \<open>blocked\<close> edge from the local user to the target and appended it.
\<close>

theorem blockUser_friend_then_block:
  "user s = Some me \<and> user_id me \<noteq> t
     \<and> filter (\<lambda>r. from_user r = user_id me \<and> to_user r = t) (relationsSignal s) = [out]
     \<and> filter (\<lambda>r. from_user r = t \<and> to_user r = user_id me) (relationsSignal s) = [inc]
     \<and> rel_type out = friend \<and> rel_type inc = friend
   \<longrightarrow> list_all (\<lambda>rels. \<not> (list_ex (friendship_filter (user_id me) t) rels
                              \<and> list_ex (blocked_between (user_id me) t) rels))
          (blockUser_signal_values s pb t)
     \<and> (\<forall>rel s' pb'. blockUser s pb t = (Inr rel, s', pb') \<longrightarrow>
          (\<exists>s1 pb1.
              blockUser_teardown s pb t = (Inr (), s1, pb1)
            \<and> \<not> list_ex (friendship_filter (user_id me) t) (relationsSignal s1)
            \<and> \<not> list_ex (blocked_between (user_id me) t) (relationsSignal s1)
            \<and> \<not> list_ex (\<lambda>r. rel_id r = rel_id out \<or> rel_id r = rel_id inc) (relations_col pb1)
            \<and> blockUser_establish me s1 pb1 t = (Inr rel, s', pb')
            \<and> from_user rel = user_id me \<and> to_user rel = t \<and> rel_type rel = blocked
            \<and> relationsSignal s' = relationsSignal s1 @ [rel]
            \<and> relations_col pb' = relations_col pb1 @ [rel\<lparr>rel_expand := None\<rparr>]
            \<and> blockUser_signal_values s pb t
                = [relationsSignal s, relationsSignal s1, relationsSignal s']))"
proof (intro impI, elim conjE)
  assume u: "user s = Some me" and ne: "user_id me \<noteq> t"
    and o: "filter (\<lambda>r. from_user r = user_id me \<and> to_user r = t) (relationsSignal s) = [out]"
    and i: "filter (\<lambda>r. from_user r = t \<and> to_user r = user_id me) (relationsSignal s) = [inc]"
    and ty: "rel_type out = friend" "rel_type inc = friend"
  let ?bad = "\<lambda>rels. list_ex (friendship_filter (user_id me) t) rels
                    \<and> list_ex (blocked_between (user_id me) t) rels"
  let ?m1 = "filter (\<lambda>r. \<not> ((rel_id r = rel_id out \<or> rel_id r = rel_id inc) \<and> rel_type r = friend))
                  (relationsSignal s)"
  have m0: "\<not> ?bad (relationsSignal s)"
    using o i ty by (simp add: between_split)
  have m1o: "filter (\<lambda>r. from_user r = user_id me \<and> to_user r = t) ?m1 = []"
    using filter_filter_single[OF o, of "\<lambda>r. \<not> ((rel_id r = rel_id out \<or> rel_id r = rel_id inc) \<and> rel_type r = friend)"] ty
    by simp
  have m1i: "filter (\<lambda>r. from_user r = t \<and> to_user r = user_id me) ?m1 = []"
    using filter_filter_single[OF i, of "\<lambda>r. \<not> ((rel_id r = rel_id out \<or> rel_id r = rel_id inc) \<and> rel_type r = friend)"] ty
    by simp
  have m1: "\<not> list_ex (friendship_filter (user_id me) t) ?m1"
           "\<not> list_ex (blocked_between (user_id me) t) ?m1"
    using m1o m1i by (simp_all add: between_split)
  have m2: "\<not> ?bad (?m1 @ [rel])" if "from_user rel = user_id me" "to_user rel = t" "rel_type rel = blocked" for rel
    using m1o m1i that ne by (simp add: between_split friendship_filter_def)
  obtain r1 s1 pb1 where td: "blockUser_teardown s pb t = (r1, s1, pb1)"
    using prod_cases3 by blast
  from teardown_cases[OF u o i ty td] have u1: "user s1 = Some me"
    and tc: "(\<exists>e. r1 = Inl e \<and> relationsSignal s1 = relationsSignal s)
        \<or> (r1 = Inr ()
            \<and> relationsSignal s1 = ?m1
            \<and> relations_col pb1 =
                filter (\<lambda>r. rel_id r \<noteq> rel_id inc)
                  (filter (\<lambda>r. rel_id r \<noteq> rel_id out) (relations_col pb)))"
    by auto
  obtain r2 s2 pb2 where es: "blockUser_establish me s1 pb1 t = (r2, s2, pb2)"
    using prod_cases3 by blast
  show "list_all (\<lambda>rels. \<not> ?bad rels) (blockUser_signal_values s pb t)
     \<and> (\<forall>rel s' pb'. blockUser s pb t = (Inr rel, s', pb') \<longrightarrow>
          (\<exists>s1 pb1.
              blockUser_teardown s pb t = (Inr (), s1, pb1)
            \<and> \<not> list_ex (friendship_filter (user_id me) t) (relationsSignal s1)
            \<and> \<not> list_ex (blocked_between (user_id me) t) (relationsSignal s1)
            \<and> \<not> list_ex (\<lambda>r. rel_id r = rel_id out \<or> rel_id r = rel_id inc) (relations_col pb1)
            \<and> blockUser_establish me s1 pb1 t = (Inr rel, s', pb')
            \<and> from_user rel = user_id me \<and> to_user rel = t \<and> rel_type rel = blocked
            \<and> relationsSignal s' = relationsSignal s1 @ [rel]
            \<and> relations_col pb' = relations_col pb1 @ [rel\<lparr>rel_expand := None\<rparr>]
            \<and> blockUser_signal_values s pb t
                = [relationsSignal s, relationsSignal s1, relationsSignal s']))"
  proof (cases r1)
    case (Inl e)
    with tc have same: "relationsSignal s1 = relationsSignal s" by auto
    have vals: "blockUser_signal_values s pb t = [relationsSignal s, relationsSignal s1]"
      using u ne td Inl by (simp add: blockUser_signal_values_def)
    have fails: "\<And>rel s' pb'. blockUser s pb t \<noteq> (Inr rel, s', pb')"
      using u ne td Inl by (simp add: blockUser_def relation_rethrow_def Let_def)
    show ?thesis using vals same m0 fails by simp
  next
    case (Inr x)
    with tc have s1m: "relationsSignal s1 = ?m1"
      and p1: "relations_col pb1 =
                filter (\<lambda>r. rel_id r \<noteq> rel_id inc)
                  (filter (\<lambda>r. rel_id r \<noteq> rel_id out) (relations_col pb))"
      by auto
    have gone: "\<not> list_ex (\<lambda>r. rel_id r = rel_id out \<or> rel_id r = rel_id inc) (relations_col pb1)"
      using p1 by (auto simp: list_ex_iff)
    have vals: "blockUser_signal_values s pb t = [relationsSignal s, relationsSignal s1, relationsSignal s2]"
      using u ne td Inr es by (simp add: blockUser_signal_values_def)
    from establish_cases[OF u1 _ _ es] m1o m1i s1m
    have ec: "(\<exists>e. r2 = Inl e \<and> relationsSignal s2 = relationsSignal s1)
     \<or> (\<exists>rel. r2 = Inr rel \<and> relationsSignal s2 = relationsSignal s1 @ [rel]
          \<and> from_user rel = user_id me \<and> to_user rel = t \<and> rel_type rel = blocked
          \<and> relations_col pb2 = relations_col pb1 @ [rel\<lparr>rel_expand := None\<rparr>])"
      by simp
    show ?thesis
    proof (cases r2)
      case (Inl e)
      with ec have same: "relationsSignal s2 = relationsSignal s1" by auto
      have fails: "\<And>rel s' pb'. blockUser s pb t \<noteq> (Inr rel, s', pb')"
        using u ne td \<open>r1 = Inr x\<close> es Inl by (simp add: blockUser_def relation_rethrow_def Let_def)
      show ?thesis using vals same s1m m0 m1 fails by simp
    next
      case (Inr rel)
      with ec have r: "relationsSignal s2 = relationsSignal s1 @ [rel]"
        "from_user rel = user_id me" "to_user rel = t" "rel_type rel = blocked"
        "relations_col pb2 = relations_col pb1 @ [rel\<lparr>rel_expand := None\<rparr>]"
        by auto
      have res: "blockUser s pb t = (Inr rel, s2, pb2)"
        using u ne td \<open>r1 = Inr x\<close> es Inr by (simp add: blockUser_def)
      have safe: "list_all (\<lambda>rels. \<not> ?bad rels) (blockUser_signal_values s pb t)"
        using vals s1m r m0 m1 m2[OF r(2,3,4)] by simp
      have td': "blockUser_teardown s pb t = (Inr (), s1, pb1)"
        using td \<open>r1 = Inr x\<close> by simp
      show ?thesis
        using safe res td' es Inr r s1m m1 gone vals by auto
    qed
  qed
qed


theorem blockUser_friend_then_block_witness:
  "blockUser_signal_values friends_client friends_server ''U2'' =
     [[edge ''r1'' ''U1'' ''U2'' friend, edge ''r2'' ''U2'' ''U1'' friend],
      [],
      [(edge ''nnn'' ''U1'' ''U2'' blocked)
         \<lparr>rel_created := ''2024-06-01'', rel_updated := ''2024-06-01'',
          rel_expand := Some (Some alice, Some bob)\<rparr>]]
   \<and> fst (blockUser friends_client friends_server ''U2'') =
       Inr ((edge ''nnn'' ''U1'' ''U2'' blocked)
              \<lparr>rel_created := ''2024-06-01'', rel_updated := ''2024-06-01'',
               rel_expand := Some (Some alice, Some bob)\<rparr>)
   \<and> relations_col (snd (snd (blockUser friends_client friends_server ''U2''))) =
       [(edge ''nnn'' ''U1'' ''U2'' blocked)
          \<lparr>rel_created := ''2024-06-01'', rel_updated := ''2024-06-01''\<rparr>]
   \<and> list_all (\<lambda>rels. \<not> (list_ex (friendship_filter ''U1'' ''U2'') rels
                          \<and> list_ex (blocked_between ''U1'' ''U2'') rels))
        (blockUser_signal_values friends_client friends_server ''U2'')"
proof -
  have hyp: "user friends_client = Some alice \<and> user_id alice \<noteq> ''U2''
     \<and> filter (\<lambda>r. from_user r = user_id alice \<and> to_user r = ''U2'') (relationsSignal friends_client)
         = [edge ''r1'' ''U1'' ''U2'' friend]
     \<and> filter (\<lambda>r. from_user r = ''U2'' \<and> to_user r = user_id alice) (relationsSignal friends_client)
         = [edge ''r2'' ''U2'' ''U1'' friend]
     \<and> rel_type (edge ''r1'' ''U1'' ''U2'' friend) = friend
     \<and> rel_type (edge ''r2'' ''U2'' ''U1'' friend) = friend"
    by (simp add: friends_client_def client_def alice_def edge_def)
  have run: "blockUser friends_client friends_server ''U2'' =
     (Inr ((edge ''nnn'' ''U1'' ''U2'' blocked)
              \<lparr>rel_created := ''2024-06-01'', rel_updated := ''2024-06-01'',
               rel_expand := Some (Some alice, Some bob)\<rparr>),
      friends_client\<lparr>relationsSignal :=
         [(edge ''nnn'' ''U1'' ''U2'' blocked)
              \<lparr>rel_created := ''2024-06-01'', rel_updated := ''2024-06-01'',
               rel_expand := Some (Some alice, Some bob)\<rparr>]\<rparr>,
      friends_server\<lparr>calls := 3, relations_col :=
         [(edge ''nnn'' ''U1'' ''U2'' blocked)
              \<lparr>rel_created := ''2024-06-01'', rel_updated := ''2024-06-01''\<rparr>]\<rparr>)"
    by (simp add: blockUser_def blockUser_teardown_def blockUser_establish_def areFriends_def
          removeFriend_def getRelationStatus_def relations_delete_def relations_create_def
          request_def expand_relation_def find_user_def Let_def
          friends_client_def friends_server_def client_def server_def alice_def bob_def edge_def)
  have vals: "blockUser_signal_values friends_client friends_server ''U2'' =
     [[edge ''r1'' ''U1'' ''U2'' friend, edge ''r2'' ''U2'' ''U1'' friend],
      [],
      [(edge ''nnn'' ''U1'' ''U2'' blocked)
         \<lparr>rel_created := ''2024-06-01'', rel_updated := ''2024-06-01'',
          rel_expand := Some (Some alice, Some bob)\<rparr>]]"
    by (simp add: blockUser_signal_values_def blockUser_teardown_def blockUser_establish_def
          areFriends_def removeFriend_def getRelationStatus_def relations_delete_def
          relations_create_def request_def expand_relation_def find_user_def Let_def
          friends_client_def friends_server_def client_def server_def alice_def bob_def edge_def)
  have a: "user_id alice = ''U1''" by (simp add: alice_def)
  from blockUser_friend_then_block
         [of friends_client alice "''U2''" "edge ''r1'' ''U1'' ''U2'' friend"
             "edge ''r2'' ''U2'' ''U1'' friend" friends_server] hyp
  have "list_all (\<lambda>rels. \<not> (list_ex (friendship_filter ''U1'' ''U2'') rels
                          \<and> list_ex (blocked_between ''U1'' ''U2'') rels))
        (blockUser_signal_values friends_client friends_server ''U2'')"
    unfolding a by blast
  with run vals show ?thesis by simp
qed

section \<open>Accepting a friend request\<close>




lemma set_sort_desc [simp]: "set (sort_desc k xs) = set xs"
  by (simp add: sort_desc_def)

lemma length_sort_desc [simp]: "length (sort_desc k xs) = length xs"
  by (simp add: sort_desc_def)




















text \<open>
  The invariant on stored kinds is needed. When bob's collection and the backend
  hold an edge from bob to alice of stored kind \<open>pending_received\<close> next to
  alice's request, the status is answered by that outgoing edge: the call succeeds,
  both of its updates go to bob's own edge, and alice's edge keeps the kind
  \<open>pending_sent\<close>.
\<close>

lemma accept_with_stored_pending_received:
  "status_type
       (getRelationStatus
          (client bob [edge ''r2'' ''U2'' ''U1'' pending_received,
                       edge ''r1'' ''U1'' ''U2'' pending_sent] []) ''U1'')
     = Rel pending_received
   \<and> fst (acceptFriendRequest
            (client bob [edge ''r2'' ''U2'' ''U1'' pending_received,
                         edge ''r1'' ''U1'' ''U2'' pending_sent] [])
            (server [edge ''r2'' ''U2'' ''U1'' pending_received,
                     edge ''r1'' ''U1'' ''U2'' pending_sent] []) ''U1'') = Inr ()
   \<and> map (\<lambda>r. (rel_id r, rel_type r))
       (relations_col
          (snd (snd (acceptFriendRequest
                       (client bob [edge ''r2'' ''U2'' ''U1'' pending_received,
                                    edge ''r1'' ''U1'' ''U2'' pending_sent] [])
                       (server [edge ''r2'' ''U2'' ''U1'' pending_received,
                                edge ''r1'' ''U1'' ''U2'' pending_sent] []) ''U1''))))
     = [(''r2'', friend), (''r1'', pending_sent)]"
  by (simp add: acceptFriendRequest_def getRelationStatus_def relations_update_def
        relations_create_def fetchRelations_def relations_getList_def request_def
        page_of_def sort_desc_def expand_relation_def find_user_def Let_def
        client_def server_def alice_def bob_def edge_def)

end
